theory Spec2Isabelle
  imports Main "HOL-Library.Word" "HOL-Library.Sublist"
begin

section \<open>Errors\<close>

text \<open>
  Python exceptions raised by the modelled code are values of one datatype; a function
  that may raise returns \<open>error + 'a\<close>, with \<open>Inl\<close> for the exception. The string is
  the exception's message.
\<close>

datatype error = ValueError string | TypeError string | NotImplementedError | StructureError string

section \<open>StateSharding (transforms/compilation.py)\<close>

text \<open>
  \<open>StateSharding.__init__\<close> accepts a State, a mapping or an iterable of pairs and
  keeps two parallel tuples, the filters and the shardings. \<open>create_path_filters\<close>
  (statelib) is a parameter: it turns a State into the items of a path-filter mapping.
\<close>

datatype ('f, 's, 'st) filter_sharding =
  OfState 'st | OfMapping "('f \<times> 's) list" | OfIterable "('f \<times> 's) list"

record ('f, 's) StateSharding =
  filters :: "'f list"
  shardings :: "'s list"

definition StateSharding_init ::
  "('st \<Rightarrow> ('f \<times> 's) list) \<Rightarrow> ('f, 's, 'st) filter_sharding \<Rightarrow> ('f, 's) StateSharding" where
  "StateSharding_init create_path_filters filter_sharding =
     (let iterable = (case filter_sharding of
                        OfState st \<Rightarrow> create_path_filters st
                      | OfMapping items \<Rightarrow> items
                      | OfIterable pairs \<Rightarrow> pairs)
      in \<lparr>filters = map fst iterable, shardings = map snd iterable\<rparr>)"

text \<open>
  The loop of \<open>map_prefix\<close> over \<open>zip(self.filters, self.shardings)\<close>: the first pair
  whose predicate accepts \<open>(path, variable)\<close> returns its sharding. \<open>to_predicate\<close>
  (filterlib) is a parameter.
\<close>

fun map_prefix_loop ::
  "('f \<Rightarrow> 'p \<Rightarrow> 'v \<Rightarrow> bool) \<Rightarrow> ('f \<times> 's) list \<Rightarrow> 'p \<Rightarrow> 'v \<Rightarrow> 's option" where
  "map_prefix_loop to_predicate [] path variable = None"
| "map_prefix_loop to_predicate ((flt, sharding) # rest) path variable =
     (if to_predicate flt path variable then Some sharding
      else map_prefix_loop to_predicate rest path variable)"

text \<open>
  \<open>raise ValueError(f'No axis found for {path=}, {variable=}')\<close>: the message holds
  the \<open>repr\<close> of the path and of the variable, both parameters.
\<close>

definition no_axis_message :: "string \<Rightarrow> string \<Rightarrow> string" where
  "no_axis_message path_repr variable_repr =
     ''No axis found for path='' @ path_repr @ '', variable='' @ variable_repr"

definition map_prefix ::
  "('f \<Rightarrow> 'p \<Rightarrow> 'v \<Rightarrow> bool) \<Rightarrow> ('p \<Rightarrow> string) \<Rightarrow> ('v \<Rightarrow> string) \<Rightarrow>
   ('f, 's) StateSharding \<Rightarrow> 'p \<Rightarrow> 'v \<Rightarrow> error + 's" where
  "map_prefix to_predicate repr_path repr_variable self path variable =
     (case map_prefix_loop to_predicate (zip (filters self) (shardings self)) path variable of
        Some sharding \<Rightarrow> Inr sharding
      | None \<Rightarrow> Inl (ValueError (no_axis_message (repr_path path) (repr_variable variable))))"

section \<open>The merge function of jit and shard\_map\<close>

text \<open>
  A leaf of a pure tree is either an extracted node (\<open>extract.NodeStates\<close>: a graphdef,
  the state trees and the prefix kept as metadata) or any other value.
\<close>

record ('g, 's, 'm) NodeStates =
  graphdef :: 'g
  states :: "'s list"
  ns_metadata :: "'m option"

datatype ('g, 's, 'm, 'x) pure_leaf =
  NodeStatesLeaf "('g, 's, 'm) NodeStates" | OtherLeaf 'x

definition merge_type_message :: "string \<Rightarrow> string \<Rightarrow> string" where
  "merge_type_message type_repr path_repr =
     ''Expected TreeNode, got '' @ type_repr @ '' at path '' @ path_repr"

text \<open>
  \<open>_jit_merge_fn(ctx, path, prefix, leaf)\<close>. \<open>ctx.unflatten\<close> is the first argument;
  \<open>type_repr\<close> gives the text of \<open>type(leaf)\<close> and \<open>repr_path\<close> that of the path.
\<close>

definition jit_merge_fn ::
  "('ctx \<Rightarrow> 'g \<Rightarrow> 's list \<Rightarrow> error + 'r) \<Rightarrow> ('x \<Rightarrow> string) \<Rightarrow> ('p \<Rightarrow> string) \<Rightarrow>
   'ctx \<Rightarrow> 'p \<Rightarrow> 'pre \<Rightarrow> ('g, 's, 'm, 'x) pure_leaf \<Rightarrow> error + 'r" where
  "jit_merge_fn unflatten type_repr repr_path ctx path pre leaf =
     (case leaf of
        OtherLeaf x \<Rightarrow> Inl (ValueError (merge_type_message (type_repr x) (repr_path path)))
      | NodeStatesLeaf ns \<Rightarrow> unflatten ctx (graphdef ns) (states ns))"

section \<open>Staged objects: Compiled, Lowered, Traced\<close>

text \<open>
  The artifacts of the compiler (\<open>jax.stages\<close>) are records of what their accessors
  give. An analysis the backend cannot provide is \<open>None\<close>; an accessor of the backend
  that raises is \<open>Inl\<close>.
\<close>

record ('i, 't, 'c) jax_Compiled =
  c_args_info :: "error + 'i"
  c_in_tree :: "error + 't"
  c_out_tree :: "error + 't"
  c_as_text :: "error + string option"
  c_cost_analysis :: "error + 'c option"
  c_memory_analysis :: "error + 'c option"
  c_runtime_executable :: "error + 'c option"

record ('i, 't, 'c) jax_Lowered =
  l_args_info :: "error + 'i"
  l_in_tree :: "error + 't"
  l_out_tree :: "error + 't"
  l_as_text :: "string option \<Rightarrow> bool \<Rightarrow> error + string"
  l_compiler_ir :: "string option \<Rightarrow> error + 'c option"
  l_cost_analysis :: "error + 'c option"
  l_compile :: "'c option \<Rightarrow> error + ('i, 't, 'c) jax_Compiled"

record ('i, 't, 'c, 'jw) Compiled =
  compiled :: "('i, 't, 'c) jax_Compiled"
  c_jit_wrapped :: 'jw

record ('i, 't, 'c, 'jw) Lowered =
  lowered :: "('i, 't, 'c) jax_Lowered"
  l_jit_wrapped :: 'jw

text \<open>
  \<open>Compiled.args_info\<close> is written \<open>raise self.compiled.args_info\<close>: the attribute is
  read (an exception of the backend propagates), then raised. Raising a value that is
  not an exception is Python's \<open>TypeError\<close>.
\<close>

definition Compiled_args_info :: "('i, 't, 'c, 'jw) Compiled \<Rightarrow> error + 'i" where
  "Compiled_args_info self =
     (case c_args_info (compiled self) of
        Inl e \<Rightarrow> Inl e
      | Inr info \<Rightarrow> Inl (TypeError ''exceptions must derive from BaseException''))"

definition Compiled_out_tree :: "('i, 't, 'c, 'jw) Compiled \<Rightarrow> error + 't" where
  "Compiled_out_tree self = c_out_tree (compiled self)"

definition Compiled_as_text :: "('i, 't, 'c, 'jw) Compiled \<Rightarrow> error + string option" where
  "Compiled_as_text self = c_as_text (compiled self)"

definition Compiled_cost_analysis :: "('i, 't, 'c, 'jw) Compiled \<Rightarrow> error + 'c option" where
  "Compiled_cost_analysis self = c_cost_analysis (compiled self)"

definition Compiled_memory_analysis :: "('i, 't, 'c, 'jw) Compiled \<Rightarrow> error + 'c option" where
  "Compiled_memory_analysis self = c_memory_analysis (compiled self)"

definition Compiled_runtime_executable :: "('i, 't, 'c, 'jw) Compiled \<Rightarrow> error + 'c option" where
  "Compiled_runtime_executable self = c_runtime_executable (compiled self)"

definition Lowered_args_info :: "('i, 't, 'c, 'jw) Lowered \<Rightarrow> error + 'i" where
  "Lowered_args_info self = l_args_info (lowered self)"

definition Lowered_out_tree :: "('i, 't, 'c, 'jw) Lowered \<Rightarrow> error + 't" where
  "Lowered_out_tree self = l_out_tree (lowered self)"

definition Lowered_as_text ::
  "('i, 't, 'c, 'jw) Lowered \<Rightarrow> string option \<Rightarrow> bool \<Rightarrow> error + string" where
  "Lowered_as_text self dialect debug_info = l_as_text (lowered self) dialect debug_info"

definition Lowered_compiler_ir ::
  "('i, 't, 'c, 'jw) Lowered \<Rightarrow> string option \<Rightarrow> error + 'c option" where
  "Lowered_compiler_ir self dialect = l_compiler_ir (lowered self) dialect"

definition Lowered_cost_analysis :: "('i, 't, 'c, 'jw) Lowered \<Rightarrow> error + 'c option" where
  "Lowered_cost_analysis self = l_cost_analysis (lowered self)"

definition Lowered_compile ::
  "('i, 't, 'c, 'jw) Lowered \<Rightarrow> 'c option \<Rightarrow> error + ('i, 't, 'c, 'jw) Compiled" where
  "Lowered_compile self compiler_options =
     (case l_compile (lowered self) compiler_options of
        Inl e \<Rightarrow> Inl e
      | Inr c \<Rightarrow> Inr \<lparr>compiled = c, c_jit_wrapped = l_jit_wrapped self\<rparr>)"

section \<open>Variables, the store and pytrees\<close>

text \<open>
  A \<open>Variable\<close> (variablelib, a class this repository only subclasses here) is a mutable
  box with an identity: its class, the value it holds and its metadata. Variables live
  in a store, a list indexed by address; a reference to a Variable is its address, so
  two references are the same object exactly when the addresses are equal. Allocation
  appends to the store, and nothing is ever removed, as in Python while a reference
  exists.
\<close>

type_synonym addr = nat

datatype key = Key string | Idx nat

type_synonym path = "key list"

datatype var_type =
  Param | BatchStat | Cache | OptState | OptArray | OptVariable | CustomVariable string

record 'v Variable =
  var_type :: var_type
  raw_value :: 'v
  metadata :: "(string \<times> string) list"

type_synonym 'v store = "'v Variable list"

text \<open>\<open>cls(value, **metadata)\<close>: a new Variable, at a fresh address.\<close>

definition new_Variable ::
  "var_type \<Rightarrow> 'v \<Rightarrow> (string \<times> string) list \<Rightarrow> 'v store \<Rightarrow> addr \<times> 'v store" where
  "new_Variable t v md h = (length h, h @ [\<lparr>var_type = t, raw_value = v, metadata = md\<rparr>])"

text \<open>\<open>x[...]\<close>, \<open>x.get_metadata()\<close> and \<open>x[...] = v\<close> on the Variable at an address.\<close>

definition get_value :: "'v store \<Rightarrow> addr \<Rightarrow> 'v" where
  "get_value h a = raw_value (h ! a)"

definition get_metadata :: "'v store \<Rightarrow> addr \<Rightarrow> (string \<times> string) list" where
  "get_metadata h a = metadata (h ! a)"

definition set_value :: "addr \<Rightarrow> 'v \<Rightarrow> 'v store \<Rightarrow> 'v store" where
  "set_value a v h = h[a := (h ! a)\<lparr>raw_value := v\<rparr>]"

text \<open>
  A pytree is a leaf or a node with a kind (tuple, list, dict with its keys, named
  tuple, \<open>None\<close>, or a \<open>State\<close> with its paths) and children. A leaf of a tree of
  objects is a Variable (by reference) or a bare array; a leaf handed to the gradient
  transformation, which is a pure function, is a Variable by value or a bare array.
\<close>

datatype node_kind =
  TupleNode | ListNode | DictNode "string list" | NamedTupleNode string | NoneNode
  | StateNode "path list"

datatype 'a pytree = Leaf 'a | Node node_kind "'a pytree list"

datatype 'v leaf = Var addr | Arr 'v

datatype 'v vleaf = VarV "'v Variable" | ArrV 'v

text \<open>\<open>jax.tree.leaves\<close> and \<open>jax.tree.structure\<close>.\<close>

fun tree_leaves :: "'a pytree \<Rightarrow> 'a list" where
  "tree_leaves (Leaf x) = [x]"
| "tree_leaves (Node k ts) = concat (map tree_leaves ts)"

definition tree_structure :: "'a pytree \<Rightarrow> unit pytree" where
  "tree_structure t = map_pytree (\<lambda>x. ()) t"

text \<open>
  \<open>jax.tree.map(f, tree, is_leaf=lambda x: isinstance(x, Variable))\<close> for an \<open>f\<close> with
  an effect on the state: \<open>f\<close> is called on the leaves from left to right, a Variable
  being a leaf, and the results are put back in the same structure.
\<close>

fun tree_map_st :: "('a \<Rightarrow> 's \<Rightarrow> 'b \<times> 's) \<Rightarrow> 'a pytree \<Rightarrow> 's \<Rightarrow> 'b pytree \<times> 's"
  and forest_map_st :: "('a \<Rightarrow> 's \<Rightarrow> 'b \<times> 's) \<Rightarrow> 'a pytree list \<Rightarrow> 's \<Rightarrow> 'b pytree list \<times> 's" where
  "tree_map_st f (Leaf x) s = (case f x s of (y, s') \<Rightarrow> (Leaf y, s'))"
| "tree_map_st f (Node k ts) s = (case forest_map_st f ts s of (ts', s') \<Rightarrow> (Node k ts', s'))"
| "forest_map_st f [] s = ([], s)"
| "forest_map_st f (t # ts) s =
     (case tree_map_st f t s of (t', s1) \<Rightarrow>
        (case forest_map_st f ts s1 of (ts', s2) \<Rightarrow> (t' # ts', s2)))"

section \<open>to\_opt\_state (training/optimizer.py)\<close>

text \<open>
  The inner function \<open>_to_opt_state(x)\<close>: a Variable becomes
  \<open>OptVariable(x[...], **x.get_metadata())\<close>, anything else \<open>OptArray(x)\<close>.
\<close>

definition to_opt_state_leaf :: "'v leaf \<Rightarrow> 'v store \<Rightarrow> 'v leaf \<times> 'v store" where
  "to_opt_state_leaf x h =
     (case x of
        Var a \<Rightarrow> (case new_Variable OptVariable (get_value h a) (get_metadata h a) h of
                    (opt_state, h') \<Rightarrow> (Var opt_state, h'))
      | Arr v \<Rightarrow> (case new_Variable OptArray v [] h of
                    (opt_state, h') \<Rightarrow> (Var opt_state, h')))"

definition to_opt_state :: "'v leaf pytree \<Rightarrow> 'v store \<Rightarrow> 'v leaf pytree \<times> 'v store" where
  "to_opt_state tree h = tree_map_st to_opt_state_leaf tree h"

section \<open>What the optimizers consume\<close>

text \<open>
  Modelled from the spec: the graph-node collaborator (\<open>nnx.state\<close>, \<open>nnx.pure\<close>,
  \<open>nnx.freeze\<close>, \<open>nnx.update\<close>, \<open>nnx.data\<close>; flax.nnx's graph module is not among the
  sources). A model is seen through its flat view, the Variables it holds by path.
  \<open>nnx.state(node, filter)\<close> is the State of the Variables the filter selects, the
  Variables themselves at its leaves; \<open>nnx.pure\<close> replaces every Variable by the value
  it holds; \<open>nnx.freeze\<close> gives an immutable view, the same values; \<open>nnx.data\<close> marks
  an attribute and is the identity.
\<close>

type_synonym module = "(path \<times> addr) list"

type_synonym 'v var_filter = "path \<Rightarrow> 'v Variable \<Rightarrow> bool"

definition nnx_state :: "'v store \<Rightarrow> module \<Rightarrow> 'v var_filter \<Rightarrow> 'v leaf pytree" where
  "nnx_state h node flt =
     (let st = filter (\<lambda>(p, a). flt p (h ! a)) node
      in Node (StateNode (map fst st)) (map (\<lambda>(p, a). Leaf (Var a)) st))"

definition nnx_pure :: "'v store \<Rightarrow> 'v leaf pytree \<Rightarrow> 'v pytree" where
  "nnx_pure h t = map_pytree (\<lambda>x. case x of Var a \<Rightarrow> get_value h a | Arr v \<Rightarrow> v) t"

definition nnx_freeze :: "'a pytree \<Rightarrow> 'a pytree" where
  "nnx_freeze t = t"

text \<open>The filter \<open>nnx.Param\<close>, the default of \<open>wrt\<close>.\<close>

definition Param_filter :: "'v var_filter" where
  "Param_filter p v = (var_type v = Param)"

text \<open>
  A tree of objects as a pure function receives it: each Variable by value. And the
  other way, the objects a pure function returns: each Variable it built is a new
  object of the store.
\<close>

definition by_value :: "'v store \<Rightarrow> 'v leaf pytree \<Rightarrow> 'v vleaf pytree" where
  "by_value h t = map_pytree (\<lambda>x. case x of Var a \<Rightarrow> VarV (h ! a) | Arr v \<Rightarrow> ArrV v) t"

definition materialize_leaf :: "'v vleaf \<Rightarrow> 'v store \<Rightarrow> 'v leaf \<times> 'v store" where
  "materialize_leaf x h =
     (case x of VarV var \<Rightarrow> (Var (length h), h @ [var]) | ArrV v \<Rightarrow> (Arr v, h))"

definition materialize :: "'v vleaf pytree \<Rightarrow> 'v store \<Rightarrow> 'v leaf pytree \<times> 'v store" where
  "materialize t h = tree_map_st materialize_leaf t h"

text \<open>
  The gradient transformation (optax) is a parameter: \<open>tx.init(params)\<close> and
  \<open>tx.update(grads, opt_state, params, **kwargs)\<close>, which returns the updates and the
  new state or raises.
\<close>

record 'v GradientTransformation =
  init :: "'v vleaf pytree \<Rightarrow> 'v vleaf pytree"
  update :: "'v pytree \<Rightarrow> 'v pytree \<Rightarrow> 'v pytree \<Rightarrow> (string \<times> 'v vleaf pytree) list
                 \<Rightarrow> error + ('v pytree \<times> 'v pytree)"

text \<open>
  \<open>jax.tree.map(f, tree, *rest)\<close> flattens \<open>tree\<close>, then flattens every other tree up
  to the structure of \<open>tree\<close>, which raises when the structures differ, and only then
  calls \<open>f\<close> on the leaves, left to right. A whole subtree facing a leaf of \<open>tree\<close> is
  outside the value type of this model and is a structure error here.
\<close>

fun flatten_up_to :: "'a pytree \<Rightarrow> 'b pytree \<Rightarrow> error + ('a \<times> 'b) list"
  and flatten_up_to_list :: "'a pytree list \<Rightarrow> 'b pytree list \<Rightarrow> error + ('a \<times> 'b) list" where
  "flatten_up_to (Leaf x) (Leaf y) = Inr [(x, y)]"
| "flatten_up_to (Leaf x) (Node k ts) = Inl (StructureError ''subtree at a leaf'')"
| "flatten_up_to (Node k ts) (Leaf y) = Inl (StructureError ''leaf at a node'')"
| "flatten_up_to (Node k ts) (Node k' ts') =
     (if k = k' then flatten_up_to_list ts ts' else Inl (StructureError ''node type mismatch''))"
| "flatten_up_to_list [] [] = Inr []"
| "flatten_up_to_list (t # ts) (t' # ts') =
     (case flatten_up_to t t' of
        Inl e \<Rightarrow> Inl e
      | Inr xs \<Rightarrow> (case flatten_up_to_list ts ts' of Inl e \<Rightarrow> Inl e | Inr ys \<Rightarrow> Inr (xs @ ys)))"
| "flatten_up_to_list [] (t' # ts') = Inl (StructureError ''arity mismatch'')"
| "flatten_up_to_list (t # ts) [] = Inl (StructureError ''arity mismatch'')"

fun tree_unflatten :: "'a pytree \<Rightarrow> 'c list \<Rightarrow> 'c pytree \<times> 'c list"
  and tree_unflatten_list :: "'a pytree list \<Rightarrow> 'c list \<Rightarrow> 'c pytree list \<times> 'c list" where
  "tree_unflatten (Leaf x) ys = (Leaf (hd ys), tl ys)"
| "tree_unflatten (Node k ts) ys = (case tree_unflatten_list ts ys of (ts', r) \<Rightarrow> (Node k ts', r))"
| "tree_unflatten_list [] ys = ([], ys)"
| "tree_unflatten_list (t # ts) ys =
     (case tree_unflatten t ys of (t', r) \<Rightarrow> (case tree_unflatten_list ts r of (ts', r') \<Rightarrow> (t' # ts', r')))"

definition tree_map2 :: "('a \<Rightarrow> 'b \<Rightarrow> 'c) \<Rightarrow> 'a pytree \<Rightarrow> 'b pytree \<Rightarrow> error + 'c pytree" where
  "tree_map2 f tree rest =
     (case flatten_up_to tree rest of
        Inl e \<Rightarrow> Inl e
      | Inr pairs \<Rightarrow> Inr (fst (tree_unflatten tree (map (\<lambda>(x, y). f x y) pairs))))"

text \<open>\<open>optax.apply_updates(params, updates)\<close>: \<open>p + u\<close> leaf by leaf.\<close>

definition apply_updates :: "'v::plus pytree \<Rightarrow> 'v pytree \<Rightarrow> error + 'v pytree" where
  "apply_updates params updates = tree_map2 (\<lambda>p u. p + u) params updates"

text \<open>
  \<open>_update_variable(param, value)\<close> of \<open>PytreeOptimizer.update\<close> is \<open>param[...] = value\<close>:
  on a Variable it sets the value held; a bare (immutable) array does not support item
  assignment. \<open>assign_all\<close> is the sequence of calls \<open>jax.tree.map\<close> makes.
\<close>

definition update_variable :: "'v leaf \<Rightarrow> 'v \<Rightarrow> 'v store \<Rightarrow> error + 'v store" where
  "update_variable param v h =
     (case param of
        Var a \<Rightarrow> Inr (set_value a v h)
      | Arr x \<Rightarrow> Inl (TypeError ''object does not support item assignment''))"

fun assign_all :: "('v leaf \<times> 'v) list \<Rightarrow> 'v store \<Rightarrow> error + 'v store" where
  "assign_all [] h = Inr h"
| "assign_all ((param, v) # rest) h =
     (case update_variable param v h of Inl e \<Rightarrow> Inl e | Inr h' \<Rightarrow> assign_all rest h')"

definition tree_map_update_variable ::
  "'v leaf pytree \<Rightarrow> 'v pytree \<Rightarrow> 'v store \<Rightarrow> error + 'v store" where
  "tree_map_update_variable tree rest h =
     (case flatten_up_to tree rest of Inl e \<Rightarrow> Inl e | Inr pairs \<Rightarrow> assign_all pairs h)"

text \<open>
  Modelled from the spec: \<open>nnx.update(node, state)\<close>, the in-place update of the
  graph-node collaborator (not among the sources). For a model and a State, every
  (path, value) of the State is written into the Variable the model holds at that
  path; a State with a path the model does not have is an error. For the stored
  \<open>opt_state\<close>, a pytree of Variables, and the new state of the transformation, the
  values are written into the Variables at the same tree positions.
\<close>

fun state_items :: "'a pytree \<Rightarrow> error + (path \<times> 'a) list" where
  "state_items (Node (StateNode ps) ts) =
     (if length ps = length ts \<and> list_all (\<lambda>t. case t of Leaf x \<Rightarrow> True | Node k us \<Rightarrow> False) ts
      then Inr (zip ps (concat (map tree_leaves ts)))
      else Inl (ValueError ''malformed State''))"
| "state_items t = Inl (ValueError ''not a State'')"

fun nnx_update_paths :: "module \<Rightarrow> (path \<times> 'v) list \<Rightarrow> 'v store \<Rightarrow> error + 'v store" where
  "nnx_update_paths node [] h = Inr h"
| "nnx_update_paths node ((p, v) # rest) h =
     (case map_of node p of
        None \<Rightarrow> Inl (ValueError ''path not found in node'')
      | Some a \<Rightarrow> nnx_update_paths node rest (set_value a v h))"

definition nnx_update :: "module \<Rightarrow> 'v pytree \<Rightarrow> 'v store \<Rightarrow> error + 'v store" where
  "nnx_update node state h =
     (case state_items state of Inl e \<Rightarrow> Inl e | Inr items \<Rightarrow> nnx_update_paths node items h)"

definition nnx_update_pytree :: "'v leaf pytree \<Rightarrow> 'v pytree \<Rightarrow> 'v store \<Rightarrow> error + 'v store" where
  "nnx_update_pytree node state h =
     (case flatten_up_to node state of Inl e \<Rightarrow> Inl e | Inr pairs \<Rightarrow> assign_all pairs h)"

section \<open>Optimizer and PytreeOptimizer (training/optimizer.py)\<close>

text \<open>
  The fields of the two classes. \<open>PytreeOptimizer\<close> has \<open>tx\<close>, \<open>step\<close> and \<open>opt_state\<close>;
  \<open>Optimizer\<close> has these and \<open>model\<close> and \<open>wrt\<close>. The counter \<open>step\<close> is a Variable
  holding a \<open>uint32\<close>; the optimizer creates it and hands it to nobody, so the record
  carries it by value. \<open>model\<close> and \<open>opt_state\<close> are references into the store.
\<close>

record 'v PytreeOptimizer =
  step :: "32 word Variable"
  tx :: "'v GradientTransformation"
  opt_state :: "'v leaf pytree"

record 'v Optimizer = "'v PytreeOptimizer" +
  model :: module
  wrt :: "'v var_filter"

text \<open>\<open>self.step[...] += 1\<close>, on \<open>uint32\<close>.\<close>

definition increment :: "32 word Variable \<Rightarrow> 32 word Variable" where
  "increment x = x\<lparr>raw_value := raw_value x + 1\<rparr>"

definition Optimizer_init ::
  "module \<Rightarrow> 'v GradientTransformation \<Rightarrow> 'v var_filter \<Rightarrow> 'v store \<Rightarrow> 'v Optimizer \<times> 'v store" where
  "Optimizer_init mdl gt flt h =
     (case materialize (init gt (by_value h (nnx_state h mdl flt))) h of
        (tree, h1) \<Rightarrow>
          (case to_opt_state tree h1 of
             (os, h2) \<Rightarrow>
               (\<lparr>step = \<lparr>var_type = OptState, raw_value = 0, metadata = []\<rparr>,
                 tx = gt, opt_state = os, model = mdl, wrt = flt\<rparr>, h2)))"

text \<open>
  \<open>Optimizer.update(grads, **kwargs)\<close>. The Python method has no return statement; the
  result here is the optimizer and the store after the call, or the exception.
\<close>

definition Optimizer_update ::
  "'v::plus Optimizer \<Rightarrow> 'v leaf pytree \<Rightarrow> (string \<times> 'v leaf pytree) list \<Rightarrow> 'v store
   \<Rightarrow> error + ('v Optimizer \<times> 'v store)" where
  "Optimizer_update self grads kwargs h =
     (let params = nnx_state h (model self) (wrt self);
          param_arrays = nnx_freeze (nnx_pure h params);
          grad_arrays = nnx_freeze (nnx_pure h grads);
          opt_state_arrays = nnx_freeze (nnx_pure h (opt_state self));
          kwargs_arrays = map (\<lambda>(k, t). (k, map_pytree ArrV (nnx_freeze (nnx_pure h t)))) kwargs
      in case update (tx self) grad_arrays opt_state_arrays param_arrays kwargs_arrays of
           Inl e \<Rightarrow> Inl e
         | Inr (updates, new_opt_state) \<Rightarrow>
             (case apply_updates param_arrays updates of
                Inl e \<Rightarrow> Inl e
              | Inr new_params \<Rightarrow>
                  (case nnx_update (model self) new_params h of
                     Inl e \<Rightarrow> Inl e
                   | Inr h1 \<Rightarrow>
                       (case nnx_update_pytree (opt_state self) new_opt_state h1 of
                          Inl e \<Rightarrow> Inl e
                        | Inr h2 \<Rightarrow> Inr (self\<lparr>step := increment (step self)\<rparr>, h2)))))"

definition PytreeOptimizer_init ::
  "'v leaf pytree \<Rightarrow> 'v GradientTransformation \<Rightarrow> 'v store \<Rightarrow> 'v PytreeOptimizer \<times> 'v store" where
  "PytreeOptimizer_init params gt h =
     (case materialize (init gt (nnx_freeze (by_value h params))) h of
        (tree, h1) \<Rightarrow>
          (case to_opt_state tree h1 of
             (os, h2) \<Rightarrow>
               (\<lparr>step = \<lparr>var_type = OptArray, raw_value = 0, metadata = []\<rparr>,
                 tx = gt, opt_state = os\<rparr>, h2)))"

text \<open>
  \<open>PytreeOptimizer.update(params, grads, **kwargs)\<close>: \<open>kwargs\<close> go to \<open>tx.update\<close> as
  they are, and one \<open>jax.tree.map\<close> over the pair \<open>(params, self.opt_state)\<close> assigns
  the new values.
\<close>

definition PytreeOptimizer_update ::
  "'v::plus PytreeOptimizer \<Rightarrow> 'v leaf pytree \<Rightarrow> 'v leaf pytree \<Rightarrow> (string \<times> 'v leaf pytree) list
   \<Rightarrow> 'v store \<Rightarrow> error + ('v PytreeOptimizer \<times> 'v store)" where
  "PytreeOptimizer_update self params grads kwargs h =
     (let param_arrays = nnx_freeze (nnx_pure h params);
          grad_arrays = nnx_freeze (nnx_pure h grads);
          opt_state_arrays = nnx_freeze (nnx_pure h (opt_state self))
      in case update (tx self) grad_arrays opt_state_arrays param_arrays
                (map (\<lambda>(k, t). (k, by_value h t)) kwargs) of
           Inl e \<Rightarrow> Inl e
         | Inr (updates, new_opt_state) \<Rightarrow>
             (case apply_updates param_arrays updates of
                Inl e \<Rightarrow> Inl e
              | Inr new_params \<Rightarrow>
                  (case tree_map_update_variable
                          (Node TupleNode [params, opt_state self])
                          (Node TupleNode [new_params, new_opt_state]) h of
                     Inl e \<Rightarrow> Inl e
                   | Inr h' \<Rightarrow> Inr (self\<lparr>step := increment (step self)\<rparr>, h'))))"



section \<open>Vocabulary of the statements\<close>

text \<open>
  What the specification says \<open>to_opt_state\<close> puts in place of a leaf: for a Variable
  an OptVariable with its value and its metadata, for a bare array an OptArray around
  it.
\<close>

definition opt_state_of :: "'v store \<Rightarrow> 'v leaf \<Rightarrow> 'v Variable" where
  "opt_state_of h x =
     (case x of
        Var a \<Rightarrow> \<lparr>var_type = OptVariable, raw_value = raw_value (h ! a), metadata = metadata (h ! a)\<rparr>
      | Arr v \<Rightarrow> \<lparr>var_type = OptArray, raw_value = v, metadata = []\<rparr>)"

text \<open>Every reference is to an object of the store.\<close>

definition refs_ok :: "'v store \<Rightarrow> 'v leaf list \<Rightarrow> bool" where
  "refs_ok h xs = list_all (\<lambda>x. case x of Var a \<Rightarrow> a < length h | Arr v \<Rightarrow> True) xs"

definition refs_in :: "'v store \<Rightarrow> module \<Rightarrow> bool" where
  "refs_in h node = list_all (\<lambda>(p, a). a < length h) node"

text \<open>
  The value read through a leaf: what a Variable holds in the store, or the bare array.
\<close>

definition leaf_value :: "'v store \<Rightarrow> 'v leaf \<Rightarrow> 'v" where
  "leaf_value h x = (case x of Var a \<Rightarrow> get_value h a | Arr v \<Rightarrow> v)"

text \<open>
  An optimizer as \<open>Optimizer.__init__\<close> leaves it: the paths of the model are distinct
  and so are its Variables, the Variables of the model and of \<open>opt_state\<close> are in the
  store, those of \<open>opt_state\<close> are distinct and none of them is a Variable of the model.
\<close>

definition wf_optimizer :: "'v store \<Rightarrow> 'v Optimizer \<Rightarrow> bool" where
  "wf_optimizer h self =
     (distinct (map fst (model self)) \<and> distinct (map snd (model self)) \<and> refs_in h (model self)
      \<and> refs_ok h (tree_leaves (opt_state self)) \<and> distinct (tree_leaves (opt_state self))
      \<and> list_all (\<lambda>(p, a). Var a \<notin> set (tree_leaves (opt_state self))) (model self))"

text \<open>
  A tree of plain arrays has no Variable among its leaves; a tree has a Variable when
  one of its leaves is a reference to one.
\<close>

definition plain_arrays :: "'v vleaf pytree \<Rightarrow> bool" where
  "plain_arrays t = list_all (\<lambda>x. case x of ArrV v \<Rightarrow> True | VarV var \<Rightarrow> False) (tree_leaves t)"

definition has_Variable :: "'v leaf pytree \<Rightarrow> bool" where
  "has_Variable t = list_ex (\<lambda>x. case x of Var a \<Rightarrow> True | Arr v \<Rightarrow> False) (tree_leaves t)"

text \<open>
  A transformation whose \<open>update\<close> raises the exception \<open>F\<close> makes from the keyword
  arguments it is called with: its caller's result shows what the caller passed.
\<close>

definition kwargs_spy :: "((string \<times> 'v vleaf pytree) list \<Rightarrow> error) \<Rightarrow> 'v GradientTransformation" where
  "kwargs_spy F =
     \<lparr>init = (\<lambda>params. Node (NamedTupleNode ''EmptyState'') []),
      update = (\<lambda>g s p kw. Inl (F kw))\<rparr>"

text \<open>
  What a caller can observe of an \<open>update\<close>: the exception, or the \<open>opt_state\<close> tree,
  the value of \<open>step\<close> and the store.
\<close>

definition outcome :: "error + (('v, 'z) PytreeOptimizer_scheme \<times> 'v store) \<Rightarrow>
    error + ('v leaf pytree \<times> 32 word \<times> 'v store)" where
  "outcome r =
     (case r of Inl e \<Rightarrow> Inl e | Inr (self, h) \<Rightarrow> Inr (opt_state self, raw_value (step self), h))"

definition zeros_like :: "'v::zero pytree \<Rightarrow> 'v pytree" where
  "zeros_like t = map_pytree (\<lambda>x. 0) t"

text \<open>
  The transformation answers all-zero gradients with all-zero updates, at the given
  state, parameters and keyword arguments.
\<close>

definition zero_updates_at ::
  "'v::zero GradientTransformation \<Rightarrow> 'v pytree \<Rightarrow> 'v pytree \<Rightarrow> (string \<times> 'v vleaf pytree) list \<Rightarrow> bool" where
  "zero_updates_at gt os p kw =
     (\<forall>u s. update gt (zeros_like p) os p kw = Inr (u, s) \<longrightarrow> u = zeros_like p)"

section \<open>Example data\<close>

text \<open>
  A model with a linear layer (bias and kernel are \<open>Param\<close>) and a batch statistic,
  and three gradient transformations over integers: momentum (a trace of the
  gradients, like \<open>optax.trace\<close>), weight decay (the update is minus the gradient
  plus the parameter, like \<open>optax.add_decayed_weights\<close> with a scale of -1), and one
  that needs its keyword arguments to be plain arrays.
\<close>

definition example_store :: "int store" where
  "example_store =
     [\<lparr>var_type = Param, raw_value = 5, metadata = [(''sharding'', ''x'')]\<rparr>,
      \<lparr>var_type = BatchStat, raw_value = 9, metadata = []\<rparr>,
      \<lparr>var_type = Param, raw_value = 7, metadata = []\<rparr>]"

definition example_model :: module where
  "example_model =
     [([Key ''linear'', Key ''bias''], 0), ([Key ''bn'', Key ''mean''], 1),
      ([Key ''linear'', Key ''kernel''], 2)]"

definition example_grads :: "int leaf pytree" where
  "example_grads =
     Node (StateNode [[Key ''linear'', Key ''bias''], [Key ''linear'', Key ''kernel'']])
       [Leaf (Arr 1), Leaf (Arr 2)]"

definition example_zero_grads :: "int leaf pytree" where
  "example_zero_grads =
     Node (StateNode [[Key ''linear'', Key ''bias''], [Key ''linear'', Key ''kernel'']])
       [Leaf (Arr 0), Leaf (Arr 0)]"

definition momentum :: "int GradientTransformation" where
  "momentum =
     \<lparr>init = (\<lambda>params. Node (NamedTupleNode ''TraceState'')
         [map_pytree (\<lambda>x. case x of VarV var \<Rightarrow> VarV (var\<lparr>raw_value := 0\<rparr>) | ArrV v \<Rightarrow> ArrV 0)
            params]),
      update = (\<lambda>g s p kw.
        case s of
          Node k [m] \<Rightarrow>
            (case tree_map2 (\<lambda>a b. a + b) g m of
               Inl e \<Rightarrow> Inl e
             | Inr m' \<Rightarrow> Inr (map_pytree uminus m', Node k [m']))
        | _ \<Rightarrow> Inl (StructureError ''state''))\<rparr>"

definition weight_decay :: "int GradientTransformation" where
  "weight_decay =
     \<lparr>init = (\<lambda>params. Node (NamedTupleNode ''EmptyState'') []),
      update = (\<lambda>g s p kw.
        case tree_map2 (\<lambda>a b. - (a + b)) g p of Inl e \<Rightarrow> Inl e | Inr u \<Rightarrow> Inr (u, s))\<rparr>"

definition kwargs_probe :: "int GradientTransformation" where
  "kwargs_probe =
     \<lparr>init = (\<lambda>params. Node (NamedTupleNode ''EmptyState'') []),
      update = (\<lambda>g s p kw.
        if list_all (\<lambda>(k, t). list_all (\<lambda>x. case x of ArrV v \<Rightarrow> True | VarV var \<Rightarrow> False)
                                (tree_leaves t)) kw
        then Inr (map_pytree uminus g, s)
        else Inl (TypeError ''unsupported operand type''))\<rparr>"

text \<open>
  The same transformation without the check of its keyword arguments; an exception that
  tells whether the keyword arguments were all plain arrays; and keyword arguments
  with one Variable (the batch statistic of the example model).
\<close>

definition blind_probe :: "int GradientTransformation" where
  "blind_probe =
     \<lparr>init = (\<lambda>params. Node (NamedTupleNode ''EmptyState'') []),
      update = (\<lambda>g s p kw. Inr (map_pytree uminus g, s))\<rparr>"

definition report_kwargs :: "(string \<times> int vleaf pytree) list \<Rightarrow> error" where
  "report_kwargs kw =
     TypeError (if list_all (\<lambda>(k, t). plain_arrays t) kw then ''arrays'' else ''Variables'')"

definition example_kwargs :: "(string \<times> int leaf pytree) list" where
  "example_kwargs = [(''value'', Leaf (Var 1))]"

section \<open>Lifted jit (transforms/compilation.py)\<close>

text \<open>
  Graph nodes (modules) are objects with identity: they live in a store of node states,
  a list indexed by address, and an argument or result is a graph node by reference or
  any other value. The arguments are taken as the list of their leaves, in order.
\<close>

datatype 'x jval = GraphNode addr | Plain 'x

text \<open>
  Modelled from the spec: the structural descriptor (graphdef) and the context a tag names
  (\<open>graph.update_context\<close>; flax.nnx's graph and extract modules are not among the
  sources). Following the design notes, identities are kept in an identity map keyed by
  the index the descriptor carries: \<open>NodeDef i\<close> describes the node of index \<open>i\<close>,
  \<open>NodeRef i\<close> a further reference to it, \<open>NewNode\<close> a node the context has no index
  for. The context holds the objects of the call scope by index, filled at extraction,
  and the objects of the inner scope by the same index, filled at reconstruction inside.
\<close>

datatype graphdef = NodeDef nat | NodeRef nat | NewNode



type_synonym ('f, 'sh) prefix = "('f, 'sh) StateSharding option"










text \<open>
  Modelled from the spec: \<open>clear_non_graph_nodes\<close> strips the leaves that are not graph
  nodes (they become \<open>None\<close>, here the given value).
\<close>

definition clear_non_graph_nodes :: "'x \<Rightarrow> 'x jval list \<Rightarrow> 'x jval list" where
  "clear_non_graph_nodes none vs =
     map (\<lambda>v. case v of GraphNode a \<Rightarrow> GraphNode a | Plain x \<Rightarrow> Plain none) vs"

text \<open>The leaves with their paths (positions) and the prefix that applies to each.\<close>

definition prefix_at :: "('f, 'sh) prefix list option \<Rightarrow> nat \<Rightarrow> ('f, 'sh) prefix" where
  "prefix_at specs i =
     (case specs of None \<Rightarrow> None | Some ps \<Rightarrow> if i < length ps then ps ! i else None)"

definition with_prefix ::
  "('f, 'sh) prefix list option \<Rightarrow> nat \<Rightarrow> 'x jval list \<Rightarrow> (nat \<times> ('f, 'sh) prefix \<times> 'x jval) list" where
  "with_prefix specs start vs =
     map (\<lambda>i. (start + i, prefix_at specs i, vs ! i)) [0..<length vs]"

definition with_path :: "'a list \<Rightarrow> (nat \<times> 'a) list" where
  "with_path xs = zip [0..<length xs] xs"










definition leaves_of :: "(nat \<times> 'p \<times> 'x jval) list \<Rightarrow> 'x jval list" where
  "leaves_of L = map (\<lambda>t. snd (snd t)) L"






section \<open>Theorems\<close>

subsection \<open>Sharding resolution\<close>

lemma map_prefix_loop_find:
  "map_prefix_loop P pairs path variable =
     map_option snd (find (\<lambda>fs. P (fst fs) path variable) pairs)"
  by (induction pairs) auto

lemma zip_filters_shardings:
  "zip (filters (StateSharding_init cpf (OfIterable pairs)))
       (shardings (StateSharding_init cpf (OfIterable pairs))) = pairs"
  by (simp add: StateSharding_init_def zip_map_fst_snd)

lemma find_first_index:
  assumes "i < length xs" and "Q (xs ! i)" and "\<And>j. j < i \<Longrightarrow> \<not> Q (xs ! j)"
  shows "find Q xs = Some (xs ! i)"
  using assms
proof (induction xs arbitrary: i)
  case Nil
  then show ?case by simp
next
  case (Cons x xs)
  show ?case
  proof (cases i)
    case 0
    with Cons.prems show ?thesis by simp
  next
    case (Suc k)
    have "\<not> Q x" using Cons.prems(3) [of 0] Suc by simp
    moreover have "find Q xs = Some (xs ! k)"
    proof (rule Cons.IH)
      show "k < length xs" using Cons.prems(1) Suc by simp
      show "Q (xs ! k)" using Cons.prems(2) Suc by simp
      show "\<not> Q (xs ! j)" if "j < k" for j
        using Cons.prems(3) [of "Suc j"] that Suc by simp
    qed
    ultimately show ?thesis using Suc by simp
  qed
qed

text \<open>
  C3. For a StateSharding built from an ordered sequence of (filter, sharding) pairs,
  \<open>map_prefix\<close> returns the sharding of the first pair, in construction order, whose
  predicate accepts (path, variable): the pair at index \<open>i\<close> when no earlier pair
  accepts. When no pair accepts it raises the ValueError whose message holds the path
  and the variable.
\<close>

theorem map_prefix_first_match:
  "(\<forall>i. i < length pairs \<and> to_predicate (fst (pairs ! i)) path variable \<and>
        (\<forall>j. j < i \<longrightarrow> \<not> to_predicate (fst (pairs ! j)) path variable) \<longrightarrow>
        map_prefix to_predicate repr_path repr_variable
          (StateSharding_init cpf (OfIterable pairs)) path variable = Inr (snd (pairs ! i)))
   \<and> ((\<forall>j. j < length pairs \<longrightarrow> \<not> to_predicate (fst (pairs ! j)) path variable) \<longrightarrow>
        map_prefix to_predicate repr_path repr_variable
          (StateSharding_init cpf (OfIterable pairs)) path variable =
        Inl (ValueError (''No axis found for path='' @ repr_path path @
                         '', variable='' @ repr_variable variable)))"
proof (intro conjI allI impI)
  fix i
  assume h: "i < length pairs \<and> to_predicate (fst (pairs ! i)) path variable \<and>
        (\<forall>j. j < i \<longrightarrow> \<not> to_predicate (fst (pairs ! j)) path variable)"
  have "find (\<lambda>fs. to_predicate (fst fs) path variable) pairs = Some (pairs ! i)"
    by (rule find_first_index) (use h in auto)
  then show "map_prefix to_predicate repr_path repr_variable
          (StateSharding_init cpf (OfIterable pairs)) path variable = Inr (snd (pairs ! i))"
    by (simp add: map_prefix_def zip_filters_shardings map_prefix_loop_find)
next
  assume h: "\<forall>j. j < length pairs \<longrightarrow> \<not> to_predicate (fst (pairs ! j)) path variable"
  have "find (\<lambda>fs. to_predicate (fst fs) path variable) pairs = None"
    using h by (auto simp: find_None_iff in_set_conv_nth)
  then show "map_prefix to_predicate repr_path repr_variable
          (StateSharding_init cpf (OfIterable pairs)) path variable =
        Inl (ValueError (''No axis found for path='' @ repr_path path @
                         '', variable='' @ repr_variable variable))"
    by (simp add: map_prefix_def zip_filters_shardings map_prefix_loop_find no_axis_message_def)
qed

theorem map_prefix_first_match_witness:
  "map_prefix (\<lambda>f p v. prefix f p) id (\<lambda>v. ''v'')
     (StateSharding_init (\<lambda>st :: unit. []) (OfIterable [(''a'', 1 :: nat), (''ab'', 2)]))
     ''abc'' () = Inr 1
   \<and> map_prefix (\<lambda>f p v. prefix f p) id (\<lambda>v. ''v'')
     (StateSharding_init (\<lambda>st :: unit. []) (OfIterable [(''a'', 1 :: nat), (''ab'', 2)]))
     ''x'' () = Inl (ValueError ''No axis found for path=x, variable=v'')"
proof
  have "0 < length [(''a'', 1 :: nat), (''ab'', 2)] \<and>
        prefix (fst ([(''a'', 1 :: nat), (''ab'', 2)] ! 0)) ''abc'' \<and>
        (\<forall>j. j < (0 :: nat) \<longrightarrow> \<not> prefix (fst ([(''a'', 1 :: nat), (''ab'', 2)] ! j)) ''abc'')"
    by simp
  with map_prefix_first_match
         [where pairs = "[(''a'', 1 :: nat), (''ab'', 2)]" and path = "''abc''"
            and to_predicate = "\<lambda>f p v. prefix f p" and variable = "()"
            and repr_path = id and repr_variable = "\<lambda>v. ''v''" and cpf = "\<lambda>st :: unit. []"]
  show "map_prefix (\<lambda>f p v. prefix f p) id (\<lambda>v. ''v'')
     (StateSharding_init (\<lambda>st :: unit. []) (OfIterable [(''a'', 1 :: nat), (''ab'', 2)]))
     ''abc'' () = Inr 1"
    by (metis fst_conv nth_Cons_0 snd_conv)
next
  have "\<forall>j. j < length [(''a'', 1 :: nat), (''ab'', 2)] \<longrightarrow>
          \<not> prefix (fst ([(''a'', 1 :: nat), (''ab'', 2)] ! j)) ''x''"
    by (auto simp: less_Suc_eq)
  with map_prefix_first_match
         [where pairs = "[(''a'', 1 :: nat), (''ab'', 2)]" and path = "''x''"
            and to_predicate = "\<lambda>f p v. prefix f p" and variable = "()"
            and repr_path = id and repr_variable = "\<lambda>v. ''v''" and cpf = "\<lambda>st :: unit. []"]
  show "map_prefix (\<lambda>f p v. prefix f p) id (\<lambda>v. ''v'')
     (StateSharding_init (\<lambda>st :: unit. []) (OfIterable [(''a'', 1 :: nat), (''ab'', 2)]))
     ''x'' () = Inl (ValueError ''No axis found for path=x, variable=v'')"
    by simp
qed

subsection \<open>The merge function\<close>

text \<open>
  C9. When the merge function receives a leaf that is not an extracted node
  (NodeStates) it raises at once, and the message holds the type of the leaf and the
  path; when the leaf is an extracted node it raises nothing of its own and hands the
  graphdef and the states to \<open>ctx.unflatten\<close>, whose result it returns.
\<close>

theorem jit_merge_fn_type_check:
  "jit_merge_fn unflatten type_repr repr_path ctx path pre (OtherLeaf x) =
     Inl (ValueError (''Expected TreeNode, got '' @ type_repr x @ '' at path '' @ repr_path path))
   \<and> jit_merge_fn unflatten type_repr repr_path ctx path pre (NodeStatesLeaf ns) =
     unflatten ctx (graphdef ns) (states ns)"
  by (simp add: jit_merge_fn_def merge_type_message_def)

subsection \<open>Inspection accessors of the staged objects\<close>

lemma Compiled_pass_through:
  "Compiled_as_text self = c_as_text (compiled self)"
  "Compiled_cost_analysis self = c_cost_analysis (compiled self)"
  "Compiled_memory_analysis self = c_memory_analysis (compiled self)"
  "Compiled_runtime_executable self = c_runtime_executable (compiled self)"
  "Compiled_out_tree self = c_out_tree (compiled self)"
  by (simp_all add: Compiled_as_text_def Compiled_cost_analysis_def
      Compiled_memory_analysis_def Compiled_runtime_executable_def Compiled_out_tree_def)

lemma Lowered_args_info_pass_through:
  "Lowered_args_info self = l_args_info (lowered self)"
  by (simp add: Lowered_args_info_def)

text \<open>
  C8 asks that every inspection accessor hands back what the backend artifact gives.
  \<open>Compiled.args_info\<close> does not: it never returns, whatever the artifact holds, and
  when the artifact has the information it raises a TypeError. (\<open>Lowered.args_info\<close>
  returns the attribute.)
\<close>

theorem Compiled_args_info_never_returns:
  "Compiled_args_info self \<noteq> Inr info
   \<and> Compiled_args_info \<lparr>compiled = c\<lparr>c_args_info := Inr info\<rparr>, c_jit_wrapped = jw\<rparr> =
       Inl (TypeError ''exceptions must derive from BaseException'')
   \<and> Lowered_args_info \<lparr>lowered = l\<lparr>l_args_info := Inr info\<rparr>, l_jit_wrapped = jw\<rparr> = Inr info"
  by (simp add: Compiled_args_info_def Lowered_args_info_def split: sum.splits)

subsection \<open>Evaluation of the definitions\<close>

lemmas eval_defs = Optimizer_init_def Optimizer_update_def PytreeOptimizer_init_def
  PytreeOptimizer_update_def nnx_state_def nnx_pure_def nnx_freeze_def by_value_def
  materialize_def materialize_leaf_def to_opt_state_def to_opt_state_leaf_def new_Variable_def
  get_value_def get_metadata_def set_value_def tree_map2_def apply_updates_def
  update_variable_def tree_map_update_variable_def nnx_update_def nnx_update_pytree_def
  increment_def Param_filter_def outcome_def Let_def

subsection \<open>to\_opt\_state\<close>

lemma tree_map_st_structure:
  "tree_map_st f t s = (t', s') \<Longrightarrow> tree_structure t' = tree_structure t"
  "forest_map_st f ts s = (ts', s') \<Longrightarrow> map tree_structure ts' = map tree_structure ts"
proof (induction f t s and f ts s arbitrary: t' s' and ts' s' rule: tree_map_st_forest_map_st.induct)
  case (1 f x s)
  then show ?case by (auto simp: tree_structure_def split: prod.splits)
next
  case (2 f k ts s)
  then show ?case by (auto simp: tree_structure_def split: prod.splits)
next
  case (3 f s)
  then show ?case by simp
next
  case (4 f t ts s)
  then show ?case by (auto split: prod.splits)
qed

lemma to_opt_state_leaf_eq:
  "to_opt_state_leaf x h = (Var (length h), h @ [opt_state_of h x])"
  by (cases x) (simp_all add: to_opt_state_leaf_def new_Variable_def opt_state_of_def
      get_value_def get_metadata_def)

lemma opt_state_of_append:
  "refs_ok h [x] \<Longrightarrow> opt_state_of (h @ ys) x = opt_state_of h x"
  by (cases x) (simp_all add: opt_state_of_def refs_ok_def nth_append)

lemma refs_ok_append [simp]: "refs_ok h (xs @ ys) \<longleftrightarrow> refs_ok h xs \<and> refs_ok h ys"
  by (simp add: refs_ok_def)

lemma refs_ok_grow: "refs_ok h xs \<Longrightarrow> refs_ok (h @ ys) xs"
  by (induction xs) (auto simp: refs_ok_def split: leaf.splits)

lemma map_opt_state_of_append:
  "refs_ok h xs \<Longrightarrow> map (opt_state_of (h @ ys)) xs = map (opt_state_of h) xs"
  by (induction xs) (auto simp: refs_ok_def opt_state_of_def nth_append split: leaf.splits)

lemma tree_map_st_alloc:
  fixes f :: "'a leaf \<Rightarrow> 'a store \<Rightarrow> 'a leaf \<times> 'a store"
  shows "tree_map_st f t h = (t', h') \<Longrightarrow> (\<And>x h. f x h = (Var (length h), h @ [opt_state_of h x])) \<Longrightarrow>
     refs_ok h (tree_leaves t) \<Longrightarrow>
     h' = h @ map (opt_state_of h) (tree_leaves t) \<and>
     tree_leaves t' = map Var [length h ..< length h + length (tree_leaves t)]"
  and "forest_map_st f ts h = (ts', h') \<Longrightarrow> (\<And>x h. f x h = (Var (length h), h @ [opt_state_of h x])) \<Longrightarrow>
     refs_ok h (concat (map tree_leaves ts)) \<Longrightarrow>
     h' = h @ map (opt_state_of h) (concat (map tree_leaves ts)) \<and>
     concat (map tree_leaves ts') =
       map Var [length h ..< length h + length (concat (map tree_leaves ts))]"
proof (induction f t h and f ts h arbitrary: t' h' and ts' h' rule: tree_map_st_forest_map_st.induct)
  case (1 f x s)
  then show ?case by auto
next
  case (2 f k ts s)
  then show ?case by (auto split: prod.splits)
next
  case (3 f s)
  then show ?case by simp
next
  case (4 f t ts s)
  obtain t1 s1 where a: "tree_map_st f t s = (t1, s1)" by fastforce
  obtain ts2 s2 where b: "forest_map_st f ts s1 = (ts2, s2)" by fastforce
  from "4.prems"(1) a b have r: "ts' = t1 # ts2" "h' = s2" by auto
  have ok1: "refs_ok s (tree_leaves t)" and ok2: "refs_ok s (concat (map tree_leaves ts))"
    using "4.prems"(3) by auto
  from "4.IH"(1) [OF a "4.prems"(2) ok1]
  have s1: "s1 = s @ map (opt_state_of s) (tree_leaves t)"
    and l1: "tree_leaves t1 = map Var [length s ..< length s + length (tree_leaves t)]" by auto
  have ok2': "refs_ok s1 (concat (map tree_leaves ts))"
    unfolding s1 by (rule refs_ok_grow [OF ok2])
  from "4.IH"(2) [OF a [symmetric] b "4.prems"(2) ok2']
  have s2: "s2 = s1 @ map (opt_state_of s1) (concat (map tree_leaves ts))"
    and l2: "concat (map tree_leaves ts2) =
       map Var [length s1 ..< length s1 + length (concat (map tree_leaves ts))]" by auto
  have m: "map (opt_state_of s1) (concat (map tree_leaves ts)) =
           map (opt_state_of s) (concat (map tree_leaves ts))"
    unfolding s1 by (rule map_opt_state_of_append [OF ok2])
  have len: "length s1 = length s + length (tree_leaves t)" by (simp add: s1)
  have "[length s ..< length s + (length (tree_leaves t) + length (concat (map tree_leaves ts)))]
        = [length s ..< length s + length (tree_leaves t)] @
          [length s + length (tree_leaves t) ..<
             length s + length (tree_leaves t) + length (concat (map tree_leaves ts))]"
    by (metis add.assoc le_add1 upt_add_eq_append)
  then show ?case using r s1 s2 m l1 l2 len by simp
qed

text \<open>
  C2. For a tree whose leaves are Variables of the store or bare arrays, \<open>to_opt_state\<close>
  returns a tree of the same structure whose leaves are new Variables, one per leaf and
  in the order of the leaves: for a Variable leaf an OptVariable with the value the
  Variable holds and all of its metadata, for a bare array an OptArray around it. A
  Variable is one leaf, so its value goes into the OptVariable as it is. The store it
  started from is a prefix of the store it leaves: no existing Variable is changed.
\<close>

theorem to_opt_state_wraps_leaves:
  assumes "refs_ok h (tree_leaves tree)" and "to_opt_state tree h = (tree', h')"
  shows "tree_structure tree' = tree_structure tree
       \<and> tree_leaves tree' = map Var [length h ..< length h + length (tree_leaves tree)]
       \<and> length h' = length h + length (tree_leaves tree)
       \<and> take (length h) h' = h
       \<and> (\<forall>i. i < length (tree_leaves tree) \<longrightarrow>
            h' ! (length h + i) =
              (case tree_leaves tree ! i of
                 Var a \<Rightarrow> \<lparr>var_type = OptVariable, raw_value = raw_value (h ! a),
                            metadata = metadata (h ! a)\<rparr>
               | Arr v \<Rightarrow> \<lparr>var_type = OptArray, raw_value = v, metadata = []\<rparr>))"
proof -
  from assms(2) have t: "tree_map_st to_opt_state_leaf tree h = (tree', h')"
    by (simp add: to_opt_state_def)
  from tree_map_st_alloc(1) [OF t to_opt_state_leaf_eq assms(1)]
  have h': "h' = h @ map (opt_state_of h) (tree_leaves tree)"
    and l: "tree_leaves tree' = map Var [length h ..< length h + length (tree_leaves tree)]"
    by auto
  have "h' ! (length h + i) = opt_state_of h (tree_leaves tree ! i)"
    if "i < length (tree_leaves tree)" for i
    using that by (simp add: h' nth_append)
  then show ?thesis
    using tree_map_st_structure(1) [OF t] l h' by (auto simp: opt_state_of_def)
qed

theorem to_opt_state_wraps_leaves_witness:
  "refs_ok [\<lparr>var_type = Param, raw_value = 7 :: int, metadata = [(''sharding'', ''x'')]\<rparr>]
     (tree_leaves (Node TupleNode [Leaf (Var 0), Node NoneNode [],
        Node (DictNode [''count'', ''mu'']) [Leaf (Arr 5), Leaf (Var 0)]]))
   \<and> to_opt_state (Node TupleNode [Leaf (Var 0), Node NoneNode [],
        Node (DictNode [''count'', ''mu'']) [Leaf (Arr 5), Leaf (Var 0)]])
       [\<lparr>var_type = Param, raw_value = 7 :: int, metadata = [(''sharding'', ''x'')]\<rparr>]
     = (Node TupleNode [Leaf (Var 1), Node NoneNode [],
          Node (DictNode [''count'', ''mu'']) [Leaf (Var 2), Leaf (Var 3)]],
        [\<lparr>var_type = Param, raw_value = 7, metadata = [(''sharding'', ''x'')]\<rparr>,
         \<lparr>var_type = OptVariable, raw_value = 7, metadata = [(''sharding'', ''x'')]\<rparr>,
         \<lparr>var_type = OptArray, raw_value = 5, metadata = []\<rparr>,
         \<lparr>var_type = OptVariable, raw_value = 7, metadata = [(''sharding'', ''x'')]\<rparr>])
   \<and> tree_structure (Node TupleNode [Leaf (Var 1), Node NoneNode [],
          Node (DictNode [''count'', ''mu'']) [Leaf (Var 2 :: int leaf), Leaf (Var 3)]])
     = tree_structure (Node TupleNode [Leaf (Var 0), Node NoneNode [],
        Node (DictNode [''count'', ''mu'']) [Leaf (Arr (5 :: int)), Leaf (Var 0)]])"
proof -
  have a: "refs_ok [\<lparr>var_type = Param, raw_value = 7 :: int, metadata = [(''sharding'', ''x'')]\<rparr>]
     (tree_leaves (Node TupleNode [Leaf (Var 0), Node NoneNode [],
        Node (DictNode [''count'', ''mu'']) [Leaf (Arr 5), Leaf (Var 0)]]))"
    by (simp add: refs_ok_def)
  have b: "to_opt_state (Node TupleNode [Leaf (Var 0), Node NoneNode [],
        Node (DictNode [''count'', ''mu'']) [Leaf (Arr 5), Leaf (Var 0)]])
       [\<lparr>var_type = Param, raw_value = 7 :: int, metadata = [(''sharding'', ''x'')]\<rparr>]
     = (Node TupleNode [Leaf (Var 1), Node NoneNode [],
          Node (DictNode [''count'', ''mu'']) [Leaf (Var 2), Leaf (Var 3)]],
        [\<lparr>var_type = Param, raw_value = 7, metadata = [(''sharding'', ''x'')]\<rparr>,
         \<lparr>var_type = OptVariable, raw_value = 7, metadata = [(''sharding'', ''x'')]\<rparr>,
         \<lparr>var_type = OptArray, raw_value = 5, metadata = []\<rparr>,
         \<lparr>var_type = OptVariable, raw_value = 7, metadata = [(''sharding'', ''x'')]\<rparr>])"
    by (simp add: to_opt_state_def to_opt_state_leaf_def new_Variable_def get_value_def
        get_metadata_def)
  from to_opt_state_wraps_leaves [OF a b] a b show ?thesis by blast
qed

subsection \<open>Writes into the store\<close>

lemma set_value_length [simp]: "length (set_value a v h) = length h"
  by (simp add: set_value_def)

lemma set_value_kind:
  "var_type (set_value a v h ! b) = var_type (h ! b) \<and> metadata (set_value a v h ! b) = metadata (h ! b)"
  by (cases "a = b"; cases "a < length h") (simp_all add: set_value_def list_update_beyond)

lemma set_value_other: "a \<noteq> b \<Longrightarrow> set_value a v h ! b = h ! b"
  by (simp add: set_value_def)

lemma nnx_update_paths_frame:
  "nnx_update_paths node items h = Inr h' \<Longrightarrow>
     length h' = length h \<and>
     (\<forall>b. var_type (h' ! b) = var_type (h ! b) \<and> metadata (h' ! b) = metadata (h ! b)) \<and>
     (\<forall>b. b \<notin> snd ` set node \<longrightarrow> h' ! b = h ! b)"
proof (induction node items h rule: nnx_update_paths.induct)
  case (1 node h)
  then show ?case by simp
next
  case (2 node p v rest h)
  from "2.prems" obtain a where a: "map_of node p = Some a"
    and r: "nnx_update_paths node rest (set_value a v h) = Inr h'"
    by (auto split: option.splits)
  have m: "a \<in> snd ` set node" using a by (metis map_of_SomeD snd_conv image_eqI)
  have o: "set_value a v h ! b = h ! b" if "b \<notin> snd ` set node" for b
    using that m by (intro set_value_other) auto
  from "2.IH" [OF a r] o show ?case
    by (simp add: set_value_kind)
qed

lemma assign_all_frame:
  "assign_all pairs h = Inr h' \<Longrightarrow>
     length h' = length h \<and>
     (\<forall>b. var_type (h' ! b) = var_type (h ! b) \<and> metadata (h' ! b) = metadata (h ! b)) \<and>
     (\<forall>b. Var b \<notin> fst ` set pairs \<longrightarrow> h' ! b = h ! b)"
proof (induction pairs h rule: assign_all.induct)
  case (1 h)
  then show ?case by simp
next
  case (2 param v rest h)
  from "2.prems" obtain a where a: "param = Var a"
    and r: "assign_all rest (set_value a v h) = Inr h'"
    by (auto simp: update_variable_def split: leaf.splits)
  have u: "update_variable param v h = Inr (set_value a v h)"
    by (simp add: a update_variable_def)
  from "2.IH" [OF u r] a show ?case
    by (auto simp: set_value_kind set_value_other)
qed

lemma flatten_up_to_leaves:
  "flatten_up_to t r = Inr pairs \<Longrightarrow>
     map fst pairs = tree_leaves t \<and> map snd pairs = tree_leaves r"
  "flatten_up_to_list ts rs = Inr pairs \<Longrightarrow>
     map fst pairs = concat (map tree_leaves ts) \<and> map snd pairs = concat (map tree_leaves rs)"
proof (induction t r and ts rs arbitrary: pairs and pairs rule: flatten_up_to_flatten_up_to_list.induct)
  case (6 t ts t' ts')
  from "6.prems" obtain xs ys where x: "flatten_up_to t t' = Inr xs"
    and y: "flatten_up_to_list ts ts' = Inr ys" and p: "pairs = xs @ ys"
    by (auto split: sum.splits)
  from "6.IH"(1) [OF x] "6.IH"(2) [OF x y] p show ?case by simp
qed (auto split: if_splits)

lemma nnx_update_pytree_frame:
  "nnx_update_pytree node state h = Inr h' \<Longrightarrow>
     length h' = length h \<and>
     (\<forall>b. var_type (h' ! b) = var_type (h ! b) \<and> metadata (h' ! b) = metadata (h ! b)) \<and>
     (\<forall>b. Var b \<notin> set (tree_leaves node) \<longrightarrow> h' ! b = h ! b)"
proof -
  assume a: "nnx_update_pytree node state h = Inr h'"
  then obtain pairs where f: "flatten_up_to node state = Inr pairs"
    and s: "assign_all pairs h = Inr h'"
    by (auto simp: nnx_update_pytree_def split: sum.splits)
  have "fst ` set pairs = set (tree_leaves node)"
    using flatten_up_to_leaves(1) [OF f] by (metis set_map)
  with assign_all_frame [OF s] show ?thesis by simp
qed

lemma nnx_update_frame:
  "nnx_update node state h = Inr h' \<Longrightarrow>
     length h' = length h \<and>
     (\<forall>b. var_type (h' ! b) = var_type (h ! b) \<and> metadata (h' ! b) = metadata (h ! b)) \<and>
     (\<forall>b. b \<notin> snd ` set node \<longrightarrow> h' ! b = h ! b)"
  by (auto simp: nnx_update_def split: sum.splits dest: nnx_update_paths_frame)

lemma Optimizer_update_cases:
  assumes "Optimizer_update self grads kwargs h = Inr (self', h')"
  obtains updates new_opt_state new_params h1 where
    "update (tx self) (nnx_pure h grads) (nnx_pure h (opt_state self))
       (nnx_pure h (nnx_state h (model self) (wrt self)))
       (map (\<lambda>(k, t). (k, map_pytree ArrV (nnx_pure h t))) kwargs) = Inr (updates, new_opt_state)"
    "apply_updates (nnx_pure h (nnx_state h (model self) (wrt self))) updates = Inr new_params"
    "nnx_update (model self) new_params h = Inr h1"
    "nnx_update_pytree (opt_state self) new_opt_state h1 = Inr h'"
    "self' = self\<lparr>step := increment (step self)\<rparr>"
  using assms
  by (auto simp: Optimizer_update_def Let_def nnx_freeze_def split: sum.splits prod.splits)

lemma example_update:
  "Optimizer_update (fst (Optimizer_init example_model momentum Param_filter example_store)) example_grads []
     (snd (Optimizer_init example_model momentum Param_filter example_store)) =
   Inr ((fst (Optimizer_init example_model momentum Param_filter example_store))
          \<lparr>step := \<lparr>var_type = OptState, raw_value = 1, metadata = []\<rparr>\<rparr>,
      [\<lparr>var_type = Param, raw_value = 4, metadata = [(''sharding'', ''x'')]\<rparr>,
       \<lparr>var_type = BatchStat, raw_value = 9, metadata = []\<rparr>,
       \<lparr>var_type = Param, raw_value = 5, metadata = []\<rparr>,
       \<lparr>var_type = Param, raw_value = 0, metadata = [(''sharding'', ''x'')]\<rparr>,
       \<lparr>var_type = Param, raw_value = 0, metadata = []\<rparr>,
       \<lparr>var_type = OptVariable, raw_value = 1, metadata = [(''sharding'', ''x'')]\<rparr>,
       \<lparr>var_type = OptVariable, raw_value = 2, metadata = []\<rparr>])"
  by (simp add: eval_defs momentum_def example_model_def example_store_def example_grads_def)

subsection \<open>Reading back what was written\<close>

lemma flatten_up_to_list_leaves:
  "flatten_up_to_list (map Leaf xs) ts = Inr pairs \<Longrightarrow>
     \<exists>vs. ts = map Leaf vs \<and> length vs = length xs \<and> pairs = zip xs vs"
proof (induction xs arbitrary: ts pairs)
  case Nil
  then show ?case by (cases ts) auto
next
  case (Cons x xs)
  from Cons.prems obtain t ts' where ts: "ts = t # ts'" by (cases ts) auto
  from Cons.prems ts obtain v where t: "t = Leaf v" by (cases t) auto
  from Cons.prems ts t obtain ys where r: "flatten_up_to_list (map Leaf xs) ts' = Inr ys"
    and p: "pairs = (x, v) # ys" by (auto split: sum.splits)
  from Cons.IH [OF r] obtain vs where "ts' = map Leaf vs" "length vs = length xs" "ys = zip xs vs"
    by blast
  with ts t p show ?case by (intro exI [of _ "v # vs"]) simp
qed

lemma flatten_up_to_list_map_Leaf:
  "length vs = length xs \<Longrightarrow> flatten_up_to_list (map Leaf xs) (map Leaf vs) = Inr (zip xs vs)"
  by (induction xs vs rule: list_induct2') auto

lemma unflatten_list_map_Leaf:
  "length ys = length xs \<Longrightarrow> tree_unflatten_list (map Leaf xs) ys = (map Leaf ys, [])"
proof (induction xs arbitrary: ys)
  case Nil
  then show ?case by simp
next
  case (Cons x xs)
  then obtain y ys' where "ys = y # ys'" by (cases ys) auto
  with Cons show ?case by simp
qed

lemma tree_map2_state:
  "tree_map2 f (Node k (map Leaf xs)) u = Inr t \<Longrightarrow>
     \<exists>vs. t = Node k (map Leaf vs) \<and> length vs = length xs"
proof -
  assume a: "tree_map2 f (Node k (map Leaf xs)) u = Inr t"
  then obtain pairs where p: "flatten_up_to (Node k (map Leaf xs)) u = Inr pairs"
    and t: "t = fst (tree_unflatten (Node k (map Leaf xs)) (map (\<lambda>(x, y). f x y) pairs))"
    by (auto simp: tree_map2_def split: sum.splits)
  from p obtain us where "u = Node k us" and "flatten_up_to_list (map Leaf xs) us = Inr pairs"
    by (cases u) (auto split: if_splits)
  then obtain ws where "length ws = length xs" "pairs = zip xs ws"
    using flatten_up_to_list_leaves by blast
  then have "length (map (\<lambda>(x, y). f x y) pairs) = length xs" by simp
  then show ?thesis using t
    by (intro exI [of _ "map (\<lambda>(x, y). f x y) pairs"]) (simp add: unflatten_list_map_Leaf)
qed

lemma assign_all_append:
  "assign_all (xs @ ys) h = (case assign_all xs h of Inl e \<Rightarrow> Inl e | Inr h1 \<Rightarrow> assign_all ys h1)"
  by (induction xs h rule: assign_all.induct) (auto split: sum.splits)

lemma nnx_update_paths_positional:
  "set st \<subseteq> set node \<Longrightarrow> distinct (map fst node) \<Longrightarrow> length vs = length st \<Longrightarrow>
     nnx_update_paths node (zip (map fst st) vs) h = assign_all (zip (map (\<lambda>(p, a). Var a) st) vs) h"
proof (induction st arbitrary: vs h)
  case Nil
  then show ?case by simp
next
  case (Cons pa st)
  obtain p a where pa: "pa = (p, a)" by (cases pa)
  from Cons.prems(3) obtain v vs' where vs: "vs = v # vs'" by (cases vs) auto
  have "map_of node p = Some a"
    using Cons.prems(1,2) pa by (simp add: map_of_eq_Some_iff)
  moreover have "nnx_update_paths node (zip (map fst st) vs') (set_value a v h) =
      assign_all (zip (map (\<lambda>(p, a). Var a) st) vs') (set_value a v h)"
    by (rule Cons.IH) (use Cons.prems vs in auto)
  ultimately show ?case by (simp add: pa vs update_variable_def)
qed

lemma nnx_pure_leaf_value: "nnx_pure h t = map_pytree (leaf_value h) t"
  by (simp add: nnx_pure_def leaf_value_def [abs_def])

lemma refs_ok_length: "length h' = length h \<Longrightarrow> refs_ok h' xs = refs_ok h xs"
  by (simp add: refs_ok_def cong: leaf.case_cong)

lemma assign_all_read:
  "assign_all pairs h = Inr h' \<Longrightarrow> distinct (map fst pairs) \<Longrightarrow> refs_ok h (map fst pairs) \<Longrightarrow>
     map (leaf_value h') (map fst pairs) = map snd pairs"
proof (induction pairs h rule: assign_all.induct)
  case (1 h)
  then show ?case by simp
next
  case (2 param v rest h)
  from "2.prems"(1) obtain a where a: "param = Var a"
    and r: "assign_all rest (set_value a v h) = Inr h'"
    by (auto simp: update_variable_def split: leaf.splits)
  have u: "update_variable param v h = Inr (set_value a v h)"
    by (simp add: a update_variable_def)
  have al: "a < length h" using "2.prems"(3) a by (simp add: refs_ok_def)
  have pre: "refs_ok h (map fst rest)" using "2.prems"(3) by (simp add: refs_ok_def)
  have ls: "length (set_value a v h) = length h" by (simp add: set_value_def)
  have ok: "refs_ok (set_value a v h) (map fst rest)"
    by (rule iffD2 [OF refs_ok_length [OF ls] pre])
  from "2.IH" [OF u r _ ok] "2.prems"(2)
  have ih: "map (leaf_value h') (map fst rest) = map snd rest" by simp
  have "Var a \<notin> fst ` set rest" using "2.prems"(2) a by auto
  with assign_all_frame [OF r] have "h' ! a = set_value a v h ! a" by simp
  then have "leaf_value h' param = v"
    using al by (simp add: a leaf_value_def get_value_def set_value_def)
  with ih show ?case by simp
qed

lemma flatten_up_to_map:
  "flatten_up_to t r = Inr pairs \<Longrightarrow> map g (map fst pairs) = map snd pairs \<Longrightarrow> map_pytree g t = r"
  "flatten_up_to_list ts rs = Inr pairs \<Longrightarrow> map g (map fst pairs) = map snd pairs \<Longrightarrow>
     map (map_pytree g) ts = rs"
proof (induction t r and ts rs arbitrary: pairs and pairs rule: flatten_up_to_flatten_up_to_list.induct)
  case (4 k ts k' ts')
  then show ?case by (auto split: if_splits)
next
  case (6 t ts t' ts')
  from "6.prems"(1) obtain xs ys where x: "flatten_up_to t t' = Inr xs"
    and y: "flatten_up_to_list ts ts' = Inr ys" and p: "pairs = xs @ ys"
    by (auto split: sum.splits)
  from "6.prems"(2) p have "map g (map fst xs) = map snd xs" "map g (map fst ys) = map snd ys"
    by (auto simp: append_eq_append_conv)
  with "6.IH"(1) [OF x] "6.IH"(2) [OF x y] show ?case by simp
qed auto

lemma Optimizer_update_writes:
  fixes self :: "'v::plus Optimizer"
  assumes u: "Optimizer_update self grads kwargs h = Inr (self', h')" and wf: "wf_optimizer h self"
  shows "\<exists>updates new_params new_opt_state.
      update (tx self) (nnx_pure h grads) (nnx_pure h (opt_state self))
        (nnx_pure h (nnx_state h (model self) (wrt self)))
        (map (\<lambda>(k, t). (k, map_pytree ArrV (nnx_pure h t))) kwargs) = Inr (updates, new_opt_state)
      \<and> apply_updates (nnx_pure h (nnx_state h (model self) (wrt self))) updates = Inr new_params
      \<and> nnx_pure h' (nnx_state h (model self) (wrt self)) = new_params
      \<and> nnx_pure h' (opt_state self) = new_opt_state"
proof -
  from u obtain updates new_os new_params h1 where
    c1: "update (tx self) (nnx_pure h grads) (nnx_pure h (opt_state self))
       (nnx_pure h (nnx_state h (model self) (wrt self)))
       (map (\<lambda>(k, t). (k, map_pytree ArrV (nnx_pure h t))) kwargs) = Inr (updates, new_os)" and
    c2: "apply_updates (nnx_pure h (nnx_state h (model self) (wrt self))) updates = Inr new_params" and
    c3: "nnx_update (model self) new_params h = Inr h1" and
    c4: "nnx_update_pytree (opt_state self) new_os h1 = Inr h'"
    by (rule Optimizer_update_cases)
  from wf have d: "distinct (map fst (model self))" and da: "distinct (map snd (model self))"
    and ri: "refs_in h (model self)" and ro: "refs_ok h (tree_leaves (opt_state self))"
    and dl: "distinct (tree_leaves (opt_state self))"
    and dj: "list_all (\<lambda>(p, a). Var a \<notin> set (tree_leaves (opt_state self))) (model self)"
    by (auto simp: wf_optimizer_def)
  define sts where "sts = filter (\<lambda>(p, a). (wrt self) p (h ! a)) (model self)"
  have params: "nnx_state h (model self) (wrt self) =
      Node (StateNode (map fst sts)) (map (\<lambda>(p, a). Leaf (Var a)) sts)"
    by (simp add: nnx_state_def sts_def Let_def)
  have pa: "nnx_pure h (nnx_state h (model self) (wrt self)) =
      Node (StateNode (map fst sts)) (map Leaf (map (\<lambda>(p, a). get_value h a) sts))"
    by (simp add: params nnx_pure_def comp_def case_prod_unfold)
  from c2 obtain vs where np: "new_params = Node (StateNode (map fst sts)) (map Leaf vs)"
    and len: "length vs = length sts"
    using tree_map2_state [of "\<lambda>p u. p + u" "StateNode (map fst sts)"
             "map (\<lambda>(p, a). get_value h a) sts" updates new_params]
    by (auto simp: apply_updates_def pa)
  have sub: "set sts \<subseteq> set (model self)" by (auto simp: sts_def)
  have si: "state_items new_params = Inr (zip (map fst sts) vs)"
    using len by (simp add: np list_all_iff comp_def)
  have "nnx_update_paths (model self) (zip (map fst sts) vs) h =
        assign_all (zip (map (\<lambda>(p, a). Var a) sts) vs) h"
    by (rule nnx_update_paths_positional [OF sub d len])
  with c3 have a1: "assign_all (zip (map (\<lambda>(p, a). Var a) sts) vs) h = Inr h1"
    by (simp add: nnx_update_def si)
  have dsts: "distinct (map (\<lambda>(p, a). Var a :: 'v leaf) sts)"
  proof -
    have "distinct (map snd sts)" unfolding sts_def using da by (rule distinct_map_filter)
    then have "distinct (map Var (map snd sts) :: 'v leaf list)"
      by (simp add: distinct_map inj_on_def)
    then show ?thesis by (simp add: comp_def case_prod_unfold)
  qed
  have rsts: "refs_ok h (map (\<lambda>(p, a). Var a) sts)"
  proof -
    have "a < length h" if "(p, a) \<in> set sts" for p a
    proof -
      from that sub have "(p, a) \<in> set (model self)" by blast
      with ri show ?thesis by (auto simp: refs_in_def list_all_iff)
    qed
    then show ?thesis by (auto simp: refs_ok_def list_all_iff)
  qed
  have r1: "map (leaf_value h1) (map (\<lambda>(p, a). Var a) sts) = vs"
    using assign_all_read [OF a1] dsts rsts len by simp
  from c4 obtain pairs where fl: "flatten_up_to (opt_state self) new_os = Inr pairs"
    and a2: "assign_all pairs h1 = Inr h'"
    by (auto simp: nnx_update_pytree_def split: sum.splits)
  have fp: "map fst pairs = tree_leaves (opt_state self)"
    using flatten_up_to_leaves(1) [OF fl] by simp
  have l1: "length h1 = length h" using assign_all_frame [OF a1] by simp
  have ro1: "refs_ok h1 (map fst pairs)" using ro by (simp add: fp refs_ok_length [OF l1])
  have r2: "map (leaf_value h') (map fst pairs) = map snd pairs"
    by (rule assign_all_read [OF a2 _ ro1]) (simp add: fp dl)
  have os: "nnx_pure h' (opt_state self) = new_os"
    unfolding nnx_pure_leaf_value by (rule flatten_up_to_map(1) [OF fl r2])
  have keep: "leaf_value h' (Var a) = leaf_value h1 (Var a)" if "(p, a) \<in> set sts" for p a
  proof -
    have "Var a \<notin> set (tree_leaves (opt_state self))"
      using dj sub that by (auto simp: list_all_iff)
    then have "Var a \<notin> fst ` set pairs" using fp by (metis set_map)
    with assign_all_frame [OF a2] show ?thesis by (simp add: leaf_value_def get_value_def)
  qed
  have "leaf_value h' (Var (snd x)) = leaf_value h1 (Var (snd x))" if "x \<in> set sts" for x
    using keep [of "fst x" "snd x"] that by simp
  then have "map (leaf_value h') (map (\<lambda>(p, a). Var a) sts) =
      map (leaf_value h1) (map (\<lambda>(p, a). Var a) sts)"
    by (simp add: case_prod_unfold)
  with r1 have "map (leaf_value h') (map (\<lambda>(p, a). Var a) sts) = vs" by simp
  then have "vs = map (\<lambda>x. leaf_value h' (Var (snd x))) sts"
    by (simp add: comp_def case_prod_unfold)
  then have "nnx_pure h' (nnx_state h (model self) (wrt self)) = new_params"
    by (simp add: params np nnx_pure_leaf_value comp_def case_prod_unfold)
  with c1 c2 os show ?thesis by blast
qed

lemma example_wf:
  "wf_optimizer (snd (Optimizer_init example_model momentum Param_filter example_store))
     (fst (Optimizer_init example_model momentum Param_filter example_store))"
  by (simp add: wf_optimizer_def refs_in_def refs_ok_def eval_defs momentum_def example_model_def
      example_store_def)

text \<open>
  C4. A successful \<open>Optimizer.update\<close> replaces no reference: the optimizer afterwards
  is the optimizer before with only the value of \<open>step\<close> changed (one more), so \<open>model\<close>
  and \<open>opt_state\<close> name the same Variables; the store has the same Variables, each
  with the class and the metadata it had, and a Variable that is neither of the model
  nor of \<open>opt_state\<close> holds the value it held. The result carries no returned value.
  The new values are where the old ones were: for an optimizer as the constructor
  leaves it, the trainable Variables of the model then hold the parameters that
  \<open>optax.apply_updates\<close> computed, and the Variables of \<open>opt_state\<close> hold the state
  that \<open>tx.update\<close> returned.
\<close>

theorem Optimizer_update_in_place:
  fixes self :: "'v::plus Optimizer"
  assumes "Optimizer_update self grads kwargs h = Inr (self', h')"
  shows "self' = self\<lparr>step := (step self)\<lparr>raw_value := raw_value (step self) + 1\<rparr>\<rparr>
       \<and> length h' = length h
       \<and> (\<forall>a. var_type (h' ! a) = var_type (h ! a) \<and> metadata (h' ! a) = metadata (h ! a))
       \<and> (\<forall>a. a \<notin> snd ` set (model self) \<and> Var a \<notin> set (tree_leaves (opt_state self))
              \<longrightarrow> h' ! a = h ! a)
       \<and> (wf_optimizer h self \<longrightarrow>
            (\<exists>updates new_params new_opt_state.
               update (tx self) (nnx_pure h grads) (nnx_pure h (opt_state self))
                 (nnx_pure h (nnx_state h (model self) (wrt self)))
                 (map (\<lambda>(k, t). (k, map_pytree ArrV (nnx_pure h t))) kwargs)
                 = Inr (updates, new_opt_state)
               \<and> apply_updates (nnx_pure h (nnx_state h (model self) (wrt self))) updates
                 = Inr new_params
               \<and> nnx_pure h' (nnx_state h (model self) (wrt self)) = new_params
               \<and> nnx_pure h' (opt_state self) = new_opt_state))"
proof -
  from assms obtain updates new_opt_state new_params h1 where
    u1: "nnx_update (model self) new_params h = Inr h1" and
    u2: "nnx_update_pytree (opt_state self) new_opt_state h1 = Inr h'" and
    s: "self' = self\<lparr>step := increment (step self)\<rparr>"
    by (rule Optimizer_update_cases)
  from nnx_update_frame [OF u1] nnx_update_pytree_frame [OF u2] s
  have "self' = self\<lparr>step := (step self)\<lparr>raw_value := raw_value (step self) + 1\<rparr>\<rparr>
       \<and> length h' = length h
       \<and> (\<forall>a. var_type (h' ! a) = var_type (h ! a) \<and> metadata (h' ! a) = metadata (h ! a))
       \<and> (\<forall>a. a \<notin> snd ` set (model self) \<and> Var a \<notin> set (tree_leaves (opt_state self))
              \<longrightarrow> h' ! a = h ! a)"
    by (simp add: increment_def)
  with Optimizer_update_writes [OF assms] show ?thesis by blast
qed

theorem Optimizer_update_in_place_witness:
  "Optimizer_update (fst (Optimizer_init example_model momentum Param_filter example_store)) example_grads []
     (snd (Optimizer_init example_model momentum Param_filter example_store)) =
   Inr ((fst (Optimizer_init example_model momentum Param_filter example_store))
          \<lparr>step := \<lparr>var_type = OptState, raw_value = 1, metadata = []\<rparr>\<rparr>,
      [\<lparr>var_type = Param, raw_value = 4, metadata = [(''sharding'', ''x'')]\<rparr>,
       \<lparr>var_type = BatchStat, raw_value = 9, metadata = []\<rparr>,
       \<lparr>var_type = Param, raw_value = 5, metadata = []\<rparr>,
       \<lparr>var_type = Param, raw_value = 0, metadata = [(''sharding'', ''x'')]\<rparr>,
       \<lparr>var_type = Param, raw_value = 0, metadata = []\<rparr>,
       \<lparr>var_type = OptVariable, raw_value = 1, metadata = [(''sharding'', ''x'')]\<rparr>,
       \<lparr>var_type = OptVariable, raw_value = 2, metadata = []\<rparr>])
   \<and> wf_optimizer (snd (Optimizer_init example_model momentum Param_filter example_store))
       (fst (Optimizer_init example_model momentum Param_filter example_store))
   \<and> length (snd (Optimizer_init example_model momentum Param_filter example_store)) = 7
   \<and> opt_state ((fst (Optimizer_init example_model momentum Param_filter example_store))
          \<lparr>step := \<lparr>var_type = OptState, raw_value = 1, metadata = []\<rparr>\<rparr>)
      = opt_state (fst (Optimizer_init example_model momentum Param_filter example_store))"
  using Optimizer_update_in_place [OF example_update] example_update example_wf by simp

subsection \<open>The step counter\<close>












subsection \<open>Optimizer and PytreeOptimizer agree\<close>

lemma assign_all_Vars:
  "length vs = length as \<Longrightarrow> \<exists>h'. assign_all (zip (map Var as) vs) h = Inr h'"
proof (induction as arbitrary: vs h)
  case Nil
  then show ?case by simp
next
  case (Cons a as)
  then obtain v vs' where "vs = v # vs'" by (cases vs) auto
  with Cons show ?case by (simp add: update_variable_def)
qed

lemma tree_map_st_extends:
  "(\<And>x s. prefix s (snd (f x s))) \<Longrightarrow> prefix s (snd (tree_map_st f t s))"
  "(\<And>x s. prefix s (snd (f x s))) \<Longrightarrow> prefix s (snd (forest_map_st f ts s))"
proof (induction f t s and f ts s rule: tree_map_st_forest_map_st.induct)
  case (1 f x s)
  have "prefix s (snd (f x s))" by (rule "1.prems")
  then show ?case by (auto split: prod.splits)
next
  case (2 f k ts s)
  have "prefix s (snd (forest_map_st f ts s))" by (rule "2.IH" [OF "2.prems"])
  then show ?case by (auto split: prod.splits)
next
  case (3 f s)
  then show ?case by simp
next
  case (4 f t ts s)
  obtain t1 s1 where a: "tree_map_st f t s = (t1, s1)" by fastforce
  obtain ts2 s2 where b: "forest_map_st f ts s1 = (ts2, s2)" by fastforce
  have "prefix s s1" using "4.IH"(1) [OF "4.prems"] a by simp
  moreover have "prefix s1 s2" using "4.IH"(2) [OF a [symmetric] "4.prems"] b by simp
  ultimately show ?case using a b by (auto intro: prefix_order.trans)
qed

lemma materialize_extends: "prefix h (snd (materialize t h))"
  unfolding materialize_def
  by (rule tree_map_st_extends) (simp add: materialize_leaf_def split: vleaf.splits)

lemma to_opt_state_extends: "prefix h (snd (to_opt_state t h))"
  unfolding to_opt_state_def
  by (rule tree_map_st_extends) (simp add: to_opt_state_leaf_eq)

lemma nnx_state_prefix:
  "prefix h h' \<Longrightarrow> refs_in h node \<Longrightarrow> nnx_state h' node flt = nnx_state h node flt"
proof -
  assume p: "prefix h h'" and r: "refs_in h node"
  have "filter (\<lambda>(p, a). flt p (h' ! a)) node = filter (\<lambda>(p, a). flt p (h ! a)) node"
  proof (rule filter_cong [OF refl])
    fix x assume "x \<in> set node"
    with r have "snd x < length h" by (auto simp: refs_in_def list_all_iff)
    with p have "h' ! snd x = h ! snd x" by (auto simp: prefix_def nth_append)
    then show "(case x of (p, a) \<Rightarrow> flt p (h' ! a)) = (case x of (p, a) \<Rightarrow> flt p (h ! a))"
      by (cases x) simp
  qed
  then show ?thesis by (simp add: nnx_state_def)
qed

lemma Optimizer_init_eq:
  "Optimizer_init mdl gt flt h = (opt, hA) \<Longrightarrow>
     PytreeOptimizer_init (nnx_state h mdl flt) gt h =
       (\<lparr>step = \<lparr>var_type = OptArray, raw_value = 0, metadata = []\<rparr>, tx = tx opt,
         opt_state = opt_state opt\<rparr>, hA)
     \<and> model opt = mdl \<and> wrt opt = flt \<and> tx opt = gt \<and> raw_value (step opt) = 0 \<and> prefix h hA"
proof -
  assume a: "Optimizer_init mdl gt flt h = (opt, hA)"
  obtain tree h1 where m: "materialize (init gt (by_value h (nnx_state h mdl flt))) h = (tree, h1)"
    by fastforce
  obtain os h2 where t: "to_opt_state tree h1 = (os, h2)" by fastforce
  have "prefix h h1" using materialize_extends [of h "init gt (by_value h (nnx_state h mdl flt))"] m
    by simp
  moreover have "prefix h1 h2" using to_opt_state_extends [of h1 tree] t by simp
  ultimately have "prefix h h2" by (rule prefix_order.trans)
  with a m t show ?thesis
    by (auto simp: Optimizer_init_def PytreeOptimizer_init_def nnx_freeze_def)
qed

lemma updates_agree:
  fixes opt :: "'v::plus Optimizer" and popt :: "'v PytreeOptimizer"
  assumes d: "distinct (map fst (model opt))"
    and os: "opt_state popt = opt_state opt" and tx: "tx popt = tx opt"
    and st: "raw_value (step popt) = raw_value (step opt)"
  shows "outcome (PytreeOptimizer_update popt (nnx_state h (model opt) (wrt opt)) grads [] h) =
         outcome (Optimizer_update opt grads [] h)"
proof -
  define sts where "sts = filter (\<lambda>(p, a). (wrt opt) p (h ! a)) (model opt)"
  define params where "params = nnx_state h (model opt) (wrt opt)"
  have params: "params = Node (StateNode (map fst sts)) (map (\<lambda>(p, a). Leaf (Var a)) sts)"
    by (simp add: params_def nnx_state_def sts_def Let_def)
  define pa where "pa = nnx_pure h params"
  have pa: "pa = Node (StateNode (map fst sts)) (map Leaf (map (\<lambda>(p, a). get_value h a) sts))"
    by (simp add: pa_def params nnx_pure_def comp_def case_prod_unfold)
  show ?thesis
  proof (cases "update (tx opt) (nnx_pure h grads) (nnx_pure h (opt_state opt)) pa []")
    case (Inl e)
    then show ?thesis
      by (simp add: outcome_def PytreeOptimizer_update_def Optimizer_update_def nnx_freeze_def
          os tx pa_def params_def)
  next
    case (Inr r)
    obtain updates new_os where r: "r = (updates, new_os)" by (cases r)
    show ?thesis
    proof (cases "apply_updates pa updates")
      case (Inl e)
      with Inr r show ?thesis
        by (simp add: outcome_def PytreeOptimizer_update_def Optimizer_update_def nnx_freeze_def
            os tx pa_def params_def)
    next
      case np: (Inr new_params)
      from np obtain vs where vs: "new_params = Node (StateNode (map fst sts)) (map Leaf vs)"
        and len: "length vs = length sts"
        using tree_map2_state [of "\<lambda>p u. p + u" "StateNode (map fst sts)"
                 "map (\<lambda>(p, a). get_value h a) sts" updates new_params]
        by (auto simp: apply_updates_def pa)
      have f1: "flatten_up_to params new_params = Inr (zip (map (\<lambda>(p, a). Var a) sts) vs)"
        using flatten_up_to_list_map_Leaf [of vs "map (\<lambda>(p, a). Var a) sts"] len
        by (simp add: params vs comp_def case_prod_unfold)
      have si: "state_items new_params = Inr (zip (map fst sts) vs)"
        using len by (simp add: vs list_all_iff comp_def)
      have sub: "set sts \<subseteq> set (model opt)" by (auto simp: sts_def)
      have eq: "nnx_update_paths (model opt) (zip (map fst sts) vs) h =
                assign_all (zip (map (\<lambda>(p, a). Var a) sts) vs) h"
        by (rule nnx_update_paths_positional [OF sub d len])
      obtain h1 where h1: "assign_all (zip (map (\<lambda>(p, a). Var a) sts) vs) h = Inr h1"
        using assign_all_Vars [of vs "map snd sts" h] len
        by (auto simp: comp_def case_prod_unfold)
      have u1: "nnx_update (model opt) new_params h = Inr h1"
        by (simp add: nnx_update_def si eq h1)
      show ?thesis
      proof (cases "flatten_up_to (opt_state opt) new_os")
        case (Inl e)
        with Inr r np u1 f1 show ?thesis
          by (simp add: outcome_def PytreeOptimizer_update_def Optimizer_update_def nnx_freeze_def
              os tx pa_def [symmetric] params_def [symmetric] tree_map_update_variable_def
              nnx_update_pytree_def)
      next
        case ys: (Inr ys)
        show ?thesis
        proof (cases "assign_all ys h1")
          case (Inl e)
          with Inr r np u1 f1 ys h1 show ?thesis
            by (simp add: outcome_def PytreeOptimizer_update_def Optimizer_update_def nnx_freeze_def
                os tx pa_def [symmetric] params_def [symmetric] tree_map_update_variable_def
                nnx_update_pytree_def assign_all_append)
        next
          case h2: (Inr h2)
          with Inr r np u1 f1 ys h1 show ?thesis
            by (simp add: outcome_def PytreeOptimizer_update_def Optimizer_update_def nnx_freeze_def
                os tx st pa_def [symmetric] params_def [symmetric] tree_map_update_variable_def
                nnx_update_pytree_def assign_all_append increment_def)
        qed
      qed
    qed
  qed
qed

text \<open>
  C6. For a model whose paths are distinct, a filter and a gradient transformation:
  an \<open>Optimizer\<close> on the model and a \<open>PytreeOptimizer\<close> on the filtered state of the
  model, each built on the same store and each updated once with the same gradients
  and no keyword arguments, end alike: the same exception, or the same \<open>opt_state\<close>,
  the same count and the same store, hence the same parameter values and the same
  optimizer-state values.
\<close>

theorem optimizers_agree:
  fixes gt :: "'v::plus GradientTransformation"
  assumes d: "distinct (map fst mdl)" and r: "refs_in h mdl"
  shows "outcome (PytreeOptimizer_update (fst (PytreeOptimizer_init (nnx_state h mdl flt) gt h))
                    (nnx_state h mdl flt) grads []
                    (snd (PytreeOptimizer_init (nnx_state h mdl flt) gt h)))
       = outcome (Optimizer_update (fst (Optimizer_init mdl gt flt h)) grads []
                    (snd (Optimizer_init mdl gt flt h)))"
proof -
  obtain opt hA where i: "Optimizer_init mdl gt flt h = (opt, hA)" by fastforce
  from Optimizer_init_eq [OF i] have
    p: "PytreeOptimizer_init (nnx_state h mdl flt) gt h =
       (\<lparr>step = \<lparr>var_type = OptArray, raw_value = 0, metadata = []\<rparr>, tx = tx opt,
         opt_state = opt_state opt\<rparr>, hA)"
    and mo: "model opt = mdl" and wo: "wrt opt = flt" and s0: "raw_value (step opt) = 0"
    and pre: "prefix h hA" by auto
  have n: "nnx_state hA mdl flt = nnx_state h mdl flt"
    using pre r by (rule nnx_state_prefix)
  have "outcome (PytreeOptimizer_update
           \<lparr>step = \<lparr>var_type = OptArray, raw_value = 0, metadata = []\<rparr>, tx = tx opt,
             opt_state = opt_state opt\<rparr>
           (nnx_state hA (model opt) (wrt opt)) grads [] hA) =
        outcome (Optimizer_update opt grads [] hA)"
    by (rule updates_agree) (simp_all add: mo d s0)
  then show ?thesis by (simp add: i p mo wo n)
qed

theorem optimizers_agree_witness:
  "distinct (map fst example_model) \<and> refs_in example_store example_model
   \<and> outcome (PytreeOptimizer_update
                (fst (PytreeOptimizer_init (nnx_state example_store example_model Param_filter) momentum example_store))
                (nnx_state example_store example_model Param_filter) example_grads []
                (snd (PytreeOptimizer_init (nnx_state example_store example_model Param_filter) momentum example_store)))
     = outcome (Optimizer_update (fst (Optimizer_init example_model momentum Param_filter example_store))
                example_grads [] (snd (Optimizer_init example_model momentum Param_filter example_store)))
   \<and> outcome (Optimizer_update (fst (Optimizer_init example_model momentum Param_filter example_store))
                example_grads [] (snd (Optimizer_init example_model momentum Param_filter example_store)))
     = Inr (Node (NamedTupleNode ''TraceState'')
             [Node (StateNode [[Key ''linear'', Key ''bias''], [Key ''linear'', Key ''kernel'']])
               [Leaf (Var 5), Leaf (Var 6)]], 1,
      [\<lparr>var_type = Param, raw_value = 4, metadata = [(''sharding'', ''x'')]\<rparr>,
       \<lparr>var_type = BatchStat, raw_value = 9, metadata = []\<rparr>,
       \<lparr>var_type = Param, raw_value = 5, metadata = []\<rparr>,
       \<lparr>var_type = Param, raw_value = 0, metadata = [(''sharding'', ''x'')]\<rparr>,
       \<lparr>var_type = Param, raw_value = 0, metadata = []\<rparr>,
       \<lparr>var_type = OptVariable, raw_value = 1, metadata = [(''sharding'', ''x'')]\<rparr>,
       \<lparr>var_type = OptVariable, raw_value = 2, metadata = []\<rparr>])"
proof -
  have a: "distinct (map fst example_model)" by (simp add: example_model_def)
  have b: "refs_in example_store example_model" by (simp add: refs_in_def example_model_def example_store_def)
  have c: "outcome (Optimizer_update (fst (Optimizer_init example_model momentum Param_filter example_store))
                example_grads [] (snd (Optimizer_init example_model momentum Param_filter example_store)))
     = Inr (Node (NamedTupleNode ''TraceState'')
             [Node (StateNode [[Key ''linear'', Key ''bias''], [Key ''linear'', Key ''kernel'']])
               [Leaf (Var 5), Leaf (Var 6)]], 1,
      [\<lparr>var_type = Param, raw_value = 4, metadata = [(''sharding'', ''x'')]\<rparr>,
       \<lparr>var_type = BatchStat, raw_value = 9, metadata = []\<rparr>,
       \<lparr>var_type = Param, raw_value = 5, metadata = []\<rparr>,
       \<lparr>var_type = Param, raw_value = 0, metadata = [(''sharding'', ''x'')]\<rparr>,
       \<lparr>var_type = Param, raw_value = 0, metadata = []\<rparr>,
       \<lparr>var_type = OptVariable, raw_value = 1, metadata = [(''sharding'', ''x'')]\<rparr>,
       \<lparr>var_type = OptVariable, raw_value = 2, metadata = []\<rparr>])"
    by (simp add: eval_defs momentum_def example_model_def example_store_def example_grads_def)
  from optimizers_agree [OF a b, of Param_filter momentum example_grads] a b c
  show ?thesis by blast
qed

subsection \<open>An update with zero gradients\<close>

lemma set_value_same: "set_value a (get_value h a) h = h"
  by (simp add: set_value_def get_value_def)

lemma assign_all_own_values:
  "assign_all (map (\<lambda>(p, a). (Var a, get_value h a)) st) h = Inr h"
  by (induction st) (auto simp: update_variable_def set_value_same)

lemma apply_updates_zeros:
  fixes xs :: "'v::monoid_add list"
  shows "apply_updates (Node k (map Leaf xs)) (zeros_like (Node k (map Leaf xs))) =
         Inr (Node k (map Leaf xs))"
proof -
  have z: "zeros_like (Node k (map Leaf xs)) = Node k (map Leaf (map (\<lambda>x. 0) xs))"
    by (simp add: zeros_like_def comp_def)
  have f: "flatten_up_to_list (map Leaf xs) (map Leaf (map (\<lambda>x. 0 :: 'v) xs)) =
           Inr (zip xs (map (\<lambda>x. 0) xs))"
    by (rule flatten_up_to_list_map_Leaf) simp
  have m: "map (\<lambda>(x, y). x + y) (zip xs (map (\<lambda>x. 0 :: 'v) xs)) = xs"
    by (induction xs) auto
  show ?thesis
    by (simp add: apply_updates_def tree_map2_def z f m unflatten_list_map_Leaf del: map_map)
qed

lemma tree_map_st_fresh:
  "tree_map_st f t h = (t', h') \<Longrightarrow> (\<And>x h. \<exists>c. f x h = (Var (length h), h @ [c])) \<Longrightarrow>
     length h \<le> length h' \<and> (\<forall>b. Var b \<in> set (tree_leaves t') \<longrightarrow> length h \<le> b)"
  "forest_map_st f ts h = (ts', h') \<Longrightarrow> (\<And>x h. \<exists>c. f x h = (Var (length h), h @ [c])) \<Longrightarrow>
     length h \<le> length h' \<and> (\<forall>b. Var b \<in> set (concat (map tree_leaves ts')) \<longrightarrow> length h \<le> b)"
proof (induction f t h and f ts h arbitrary: t' h' and ts' h' rule: tree_map_st_forest_map_st.induct)
  case (1 f x s)
  from "1.prems"(2) [of x s] obtain c where "f x s = (Var (length s), s @ [c])" by blast
  with "1.prems"(1) show ?case by auto
next
  case (2 f k ts s)
  obtain ts2 s2 where b: "forest_map_st f ts s = (ts2, s2)" by fastforce
  with "2.prems"(1) have "t' = Node k ts2" "h' = s2" by auto
  with "2.IH" [OF b "2.prems"(2)] show ?case by simp
next
  case (3 f s)
  then show ?case by simp
next
  case (4 f t ts s)
  obtain t1 s1 where a: "tree_map_st f t s = (t1, s1)" by fastforce
  obtain ts2 s2 where b: "forest_map_st f ts s1 = (ts2, s2)" by fastforce
  from "4.prems"(1) a b have r: "ts' = t1 # ts2" "h' = s2" by auto
  from "4.IH"(1) [OF a "4.prems"(2)] "4.IH"(2) [OF a [symmetric] b "4.prems"(2)] r
  show ?case by fastforce
qed

lemma to_opt_state_fresh:
  "to_opt_state t h = (t', h') \<Longrightarrow> Var b \<in> set (tree_leaves t') \<Longrightarrow> length h \<le> b"
  using tree_map_st_fresh(1) [of to_opt_state_leaf t h t' h']
  by (auto simp: to_opt_state_def to_opt_state_leaf_eq)

lemma Optimizer_init_fresh:
  assumes "Optimizer_init mdl gt flt h = (opt, hA)" and "Var b \<in> set (tree_leaves (opt_state opt))"
  shows "length h \<le> b"
proof -
  obtain tree h1 where m: "materialize (init gt (by_value h (nnx_state h mdl flt))) h = (tree, h1)"
    by fastforce
  obtain os h2 where t: "to_opt_state tree h1 = (os, h2)" by fastforce
  from assms(1) m t have "opt_state opt = os" by (auto simp: Optimizer_init_def)
  with to_opt_state_fresh [OF t] assms(2) have "length h1 \<le> b" by simp
  moreover have "length h \<le> length h1"
    using materialize_extends [of h "init gt (by_value h (nnx_state h mdl flt))"] m
    by (auto simp: prefix_def)
  ultimately show ?thesis by simp
qed

lemma example_zero_update:
  "Optimizer_update (fst (Optimizer_init example_model momentum Param_filter example_store)) example_zero_grads []
     (snd (Optimizer_init example_model momentum Param_filter example_store)) =
   Inr ((fst (Optimizer_init example_model momentum Param_filter example_store))
          \<lparr>step := \<lparr>var_type = OptState, raw_value = 1, metadata = []\<rparr>\<rparr>,
        snd (Optimizer_init example_model momentum Param_filter example_store))"
  by (simp add: eval_defs momentum_def example_model_def example_store_def example_zero_grads_def)

text \<open>
  C7, as amended. For a model whose paths are distinct and a transformation that, at
  the state \<open>Optimizer(model, tx, wrt=F)\<close> starts from, answers all-zero gradients with
  all-zero updates: one successful \<open>update\<close> with all-zero gradients leaves every
  Variable of the store the model lives in, so every trainable parameter, with the
  value it had, while \<open>step\<close> goes from 0 to 1.
\<close>

theorem zero_grads_keep_params:
  fixes gt :: "'v::monoid_add GradientTransformation"
  assumes d: "distinct (map fst mdl)" and r: "refs_in h mdl"
    and i: "Optimizer_init mdl gt flt h = (opt, h1)"
    and g: "nnx_pure h1 grads = zeros_like (nnx_pure h1 (nnx_state h1 mdl flt))"
    and z: "zero_updates_at gt (nnx_pure h1 (opt_state opt)) (nnx_pure h1 (nnx_state h1 mdl flt))
              (map (\<lambda>(k, t). (k, map_pytree ArrV (nnx_pure h1 t))) kwargs)"
    and u: "Optimizer_update opt grads kwargs h1 = Inr (opt', h')"
  shows "(\<forall>a. a < length h \<longrightarrow> h' ! a = h ! a)
       \<and> nnx_pure h' (nnx_state h' mdl flt) = nnx_pure h (nnx_state h mdl flt)
       \<and> raw_value (step opt) = 0 \<and> raw_value (step opt') = 1"
proof -
  from Optimizer_init_eq [OF i] have mo: "model opt = mdl" and wo: "wrt opt = flt"
    and to: "tx opt = gt" and s0: "raw_value (step opt) = 0" and pre: "prefix h h1" by auto
  define sts where "sts = filter (\<lambda>(p, a). flt p (h1 ! a)) mdl"
  define pa where "pa = nnx_pure h1 (nnx_state h1 mdl flt)"
  have pa: "pa = Node (StateNode (map fst sts)) (map Leaf (map (\<lambda>(p, a). get_value h1 a) sts))"
    by (simp add: pa_def nnx_state_def nnx_pure_def sts_def Let_def comp_def case_prod_unfold)
  from u obtain updates new_os new_params h2 where
    c1: "update gt (nnx_pure h1 grads) (nnx_pure h1 (opt_state opt)) pa
          (map (\<lambda>(k, t). (k, map_pytree ArrV (nnx_pure h1 t))) kwargs) = Inr (updates, new_os)" and
    c2: "apply_updates pa updates = Inr new_params" and
    c3: "nnx_update mdl new_params h1 = Inr h2" and
    c4: "nnx_update_pytree (opt_state opt) new_os h2 = Inr h'" and
    c5: "opt' = opt\<lparr>step := increment (step opt)\<rparr>"
    by (rule Optimizer_update_cases) (simp add: mo wo to pa_def)
  from c1 g z have "updates = zeros_like pa"
    unfolding zero_updates_at_def pa_def by metis
  with c2 have np: "new_params = pa"
    using apply_updates_zeros [of "StateNode (map fst sts)" "map (\<lambda>(p, a). get_value h1 a) sts"]
    by (simp add: pa)
  have sub: "set sts \<subseteq> set mdl" by (auto simp: sts_def)
  have si: "state_items pa = Inr (zip (map fst sts) (map (\<lambda>(p, a). get_value h1 a) sts))"
    by (simp add: pa list_all_iff comp_def)
  have "nnx_update_paths mdl (zip (map fst sts) (map (\<lambda>(p, a). get_value h1 a) sts)) h1 =
        assign_all (zip (map (\<lambda>(p, a). Var a) sts) (map (\<lambda>(p, a). get_value h1 a) sts)) h1"
    by (rule nnx_update_paths_positional [OF sub d]) simp
  also have "zip (map (\<lambda>(p, a). Var a) sts) (map (\<lambda>(p, a). get_value h1 a) sts) =
             map (\<lambda>(p, a). (Var a, get_value h1 a)) sts"
    by (induction sts) auto
  finally have "nnx_update mdl pa h1 = Inr h1"
    by (simp add: nnx_update_def si assign_all_own_values)
  with c3 np have h2: "h2 = h1" by simp
  have keep: "h' ! a = h ! a" if "a < length h" for a
  proof -
    have "Var a \<notin> set (tree_leaves (opt_state opt))"
      using Optimizer_init_fresh [OF i, of a] that by auto
    with nnx_update_pytree_frame [OF c4] have "h' ! a = h1 ! a" by (simp add: h2)
    also have "h1 ! a = h ! a" using pre that by (auto simp: prefix_def nth_append)
    finally show ?thesis .
  qed
  have len: "length h' = length h1" using nnx_update_pytree_frame [OF c4] by (simp add: h2)
  have "prefix h h'"
  proof -
    from pre have "length h \<le> length h'" by (auto simp: prefix_def len)
    moreover have "take (length h) h' = h"
      using keep calculation by (intro nth_equalityI) auto
    ultimately show ?thesis by (metis take_is_prefix)
  qed
  then have "nnx_state h' mdl flt = nnx_state h mdl flt" using r by (rule nnx_state_prefix)
  moreover have "nnx_pure h' (nnx_state h mdl flt) = nnx_pure h (nnx_state h mdl flt)"
  proof -
    have "get_value h' (snd x) = get_value h (snd x)" if "x \<in> set mdl" for x
      using that r keep [of "snd x"] by (auto simp: refs_in_def list_all_iff get_value_def)
    then show ?thesis
      by (auto simp: nnx_pure_def nnx_state_def Let_def case_prod_unfold)
  qed
  ultimately show ?thesis using keep s0 c5 by (simp add: increment_def)
qed

theorem zero_grads_keep_params_witness:
  "distinct (map fst example_model) \<and> refs_in example_store example_model
   \<and> nnx_pure (snd (Optimizer_init example_model momentum Param_filter example_store)) example_zero_grads =
       zeros_like (nnx_pure (snd (Optimizer_init example_model momentum Param_filter example_store))
                     (nnx_state (snd (Optimizer_init example_model momentum Param_filter example_store)) example_model Param_filter))
   \<and> nnx_pure (snd (Optimizer_init example_model momentum Param_filter example_store))
        (nnx_state (snd (Optimizer_init example_model momentum Param_filter example_store)) example_model Param_filter)
      = nnx_pure example_store (nnx_state example_store example_model Param_filter)
   \<and> raw_value (step (fst (Optimizer_init example_model momentum Param_filter example_store))) = 0
   \<and> raw_value (step ((fst (Optimizer_init example_model momentum Param_filter example_store))
          \<lparr>step := \<lparr>var_type = OptState, raw_value = 1, metadata = []\<rparr>\<rparr>)) = 1"
proof -
  let ?opt = "fst (Optimizer_init example_model momentum Param_filter example_store)"
  let ?h1 = "snd (Optimizer_init example_model momentum Param_filter example_store)"
  have a: "distinct (map fst example_model)" by (simp add: example_model_def)
  have b: "refs_in example_store example_model" by (simp add: refs_in_def example_model_def example_store_def)
  have i: "Optimizer_init example_model momentum Param_filter example_store = (?opt, ?h1)" by simp
  have g: "nnx_pure ?h1 example_zero_grads =
           zeros_like (nnx_pure ?h1 (nnx_state ?h1 example_model Param_filter))"
    by (simp add: eval_defs zeros_like_def momentum_def example_model_def example_store_def example_zero_grads_def)
  have z: "zero_updates_at momentum (nnx_pure ?h1 (opt_state ?opt))
             (nnx_pure ?h1 (nnx_state ?h1 example_model Param_filter))
             (map (\<lambda>(k, t). (k, map_pytree ArrV (nnx_pure ?h1 t))) [])"
    by (simp add: zero_updates_at_def eval_defs zeros_like_def momentum_def example_model_def example_store_def)
  from zero_grads_keep_params [OF a b i g z example_zero_update] a b g
  show ?thesis by simp
qed

text \<open>
  C7 as stated fails for a transformation with weight decay: the gradients are all
  zero, the update succeeds and counts one step, and both parameters change (5 and 7
  become 0).
\<close>

theorem zero_grads_counterexample:
  "nnx_pure (snd (Optimizer_init example_model weight_decay Param_filter example_store)) example_zero_grads =
       zeros_like (nnx_pure (snd (Optimizer_init example_model weight_decay Param_filter example_store))
                     (nnx_state (snd (Optimizer_init example_model weight_decay Param_filter example_store)) example_model Param_filter))
   \<and> nnx_pure example_store (nnx_state example_store example_model Param_filter) =
       Node (StateNode [[Key ''linear'', Key ''bias''], [Key ''linear'', Key ''kernel'']])
         [Leaf 5, Leaf 7]
   \<and> outcome (Optimizer_update (fst (Optimizer_init example_model weight_decay Param_filter example_store))
                example_zero_grads [] (snd (Optimizer_init example_model weight_decay Param_filter example_store)))
     = Inr (Node (NamedTupleNode ''EmptyState'') [], 1,
        [\<lparr>var_type = Param, raw_value = 0, metadata = [(''sharding'', ''x'')]\<rparr>,
         \<lparr>var_type = BatchStat, raw_value = 9, metadata = []\<rparr>,
         \<lparr>var_type = Param, raw_value = 0, metadata = []\<rparr>])
   \<and> nnx_pure [\<lparr>var_type = Param, raw_value = 0, metadata = [(''sharding'', ''x'')]\<rparr>,
         \<lparr>var_type = BatchStat, raw_value = 9, metadata = []\<rparr>,
         \<lparr>var_type = Param, raw_value = 0 :: int, metadata = []\<rparr>]
        (nnx_state example_store example_model Param_filter) \<noteq> nnx_pure example_store (nnx_state example_store example_model Param_filter)"
  by (simp add: eval_defs zeros_like_def weight_decay_def example_model_def example_store_def example_zero_grads_def)

subsection \<open>Keyword arguments\<close>

lemma nnx_pure_idem: "nnx_pure h (map_pytree Arr (nnx_pure h t)) = nnx_pure h t"
  by (simp add: nnx_pure_def pytree.map_comp comp_def)

lemma tree_leaves_map: "tree_leaves (map_pytree f t) = map f (tree_leaves t)"
  by (induction t) (simp_all add: map_concat comp_def cong: map_cong)

lemma Optimizer_update_spy:
  "Optimizer_update (self\<lparr>tx := kwargs_spy F\<rparr>) grads kwargs h =
     Inl (F (map (\<lambda>(k, t). (k, map_pytree ArrV (nnx_pure h t))) kwargs))"
  by (simp add: Optimizer_update_def Let_def kwargs_spy_def nnx_freeze_def)

lemma PytreeOptimizer_update_spy:
  "PytreeOptimizer_update (pself\<lparr>tx := kwargs_spy F\<rparr>) params grads kwargs h =
     Inl (F (map (\<lambda>(k, t). (k, by_value h t)) kwargs))"
  by (simp add: PytreeOptimizer_update_def Let_def kwargs_spy_def nnx_freeze_def)

lemma Optimizer_update_only_at:
  assumes "update gt (nnx_pure h grads) (nnx_pure h (opt_state self))
             (nnx_pure h (nnx_state h (model self) (wrt self)))
             (map (\<lambda>(k, t). (k, map_pytree ArrV (nnx_pure h t))) kwargs) =
           update gt' (nnx_pure h grads) (nnx_pure h (opt_state self))
             (nnx_pure h (nnx_state h (model self) (wrt self)))
             (map (\<lambda>(k, t). (k, map_pytree ArrV (nnx_pure h t))) kwargs)"
  shows "outcome (Optimizer_update (self\<lparr>tx := gt\<rparr>) grads kwargs h) =
         outcome (Optimizer_update (self\<lparr>tx := gt'\<rparr>) grads kwargs h)"
  using assms
  by (simp add: Optimizer_update_def Let_def nnx_freeze_def outcome_def
      split: sum.splits prod.splits)

lemma PytreeOptimizer_update_only_at:
  assumes "update gt (nnx_pure h grads) (nnx_pure h (opt_state pself)) (nnx_pure h params)
             (map (\<lambda>(k, t). (k, by_value h t)) kwargs) =
           update gt' (nnx_pure h grads) (nnx_pure h (opt_state pself)) (nnx_pure h params)
             (map (\<lambda>(k, t). (k, by_value h t)) kwargs)"
  shows "outcome (PytreeOptimizer_update (pself\<lparr>tx := gt\<rparr>) params grads kwargs h) =
         outcome (PytreeOptimizer_update (pself\<lparr>tx := gt'\<rparr>) params grads kwargs h)"
  using assms
  by (simp add: PytreeOptimizer_update_def Let_def nnx_freeze_def outcome_def
      split: sum.splits prod.splits)

lemma converted_plain:
  "list_all (\<lambda>(k, t). plain_arrays t) (map (\<lambda>(k, t). (k, map_pytree ArrV (nnx_pure h t))) kwargs)"
  by (induction kwargs) (auto simp: plain_arrays_def tree_leaves_map list_all_iff)

lemma by_value_not_plain: "has_Variable t \<Longrightarrow> \<not> plain_arrays (by_value h t)"
  by (auto simp: has_Variable_def plain_arrays_def by_value_def tree_leaves_map list_all_iff
      list_ex_iff split: leaf.splits)

lemma unconverted_not_plain:
  "list_ex (\<lambda>(k, t). has_Variable t) kwargs \<Longrightarrow>
     \<not> list_all (\<lambda>(k, t). plain_arrays t) (map (\<lambda>(k, t). (k, by_value h t)) kwargs)"
  by (induction kwargs) (auto simp: by_value_not_plain)

lemma representations_differ:
  assumes "list_ex (\<lambda>(k, t). has_Variable t) kwargs"
  shows "map (\<lambda>(k, t). (k, map_pytree ArrV (nnx_pure h t))) kwargs \<noteq>
         map (\<lambda>(k, t). (k, by_value h t)) kwargs"
  using unconverted_not_plain [OF assms, of h] converted_plain [of h kwargs] by metis

text \<open>
  C10. \<open>Optimizer.update\<close> calls \<open>tx.update\<close> with the keyword arguments converted:
  every key with its tree in which each Variable is replaced by the value it holds, so
  all of them trees of plain arrays. \<open>PytreeOptimizer.update\<close> calls it with the keyword
  arguments as they are, Variables included. The argument is read off the result: a
  transformation that raises an exception made from its keyword arguments gets the
  converted ones from \<open>Optimizer\<close> and the unconverted ones from \<open>PytreeOptimizer\<close>, and
  for any transformation the outcome of the call depends on \<open>tx.update\<close> only through
  its result at these arguments. Whenever some keyword argument has a Variable leaf the
  two argument lists differ. Hence replacing the Variables beforehand changes nothing
  for \<open>Optimizer.update\<close>, changes the result of \<open>PytreeOptimizer.update\<close> for some
  keyword arguments, and the two optimizers, with the same transformation and state,
  can end differently on the same call.
\<close>

theorem kwargs_handled_differently:
  fixes self :: "'v::plus Optimizer" and pself :: "'v PytreeOptimizer"
  shows
  "Optimizer_update (self\<lparr>tx := kwargs_spy F\<rparr>) grads kwargs h =
     Inl (F (map (\<lambda>(k, t). (k, map_pytree ArrV (nnx_pure h t))) kwargs))
   \<and> PytreeOptimizer_update (pself\<lparr>tx := kwargs_spy F\<rparr>) params grads kwargs h =
     Inl (F (map (\<lambda>(k, t). (k, by_value h t)) kwargs))
   \<and> (update gt (nnx_pure h grads) (nnx_pure h (opt_state self))
         (nnx_pure h (nnx_state h (model self) (wrt self)))
         (map (\<lambda>(k, t). (k, map_pytree ArrV (nnx_pure h t))) kwargs) =
       update gt' (nnx_pure h grads) (nnx_pure h (opt_state self))
         (nnx_pure h (nnx_state h (model self) (wrt self)))
         (map (\<lambda>(k, t). (k, map_pytree ArrV (nnx_pure h t))) kwargs) \<longrightarrow>
       outcome (Optimizer_update (self\<lparr>tx := gt\<rparr>) grads kwargs h) =
       outcome (Optimizer_update (self\<lparr>tx := gt'\<rparr>) grads kwargs h))
   \<and> (update pgt (nnx_pure h grads) (nnx_pure h (opt_state pself)) (nnx_pure h params)
         (map (\<lambda>(k, t). (k, by_value h t)) kwargs) =
       update pgt' (nnx_pure h grads) (nnx_pure h (opt_state pself)) (nnx_pure h params)
         (map (\<lambda>(k, t). (k, by_value h t)) kwargs) \<longrightarrow>
       outcome (PytreeOptimizer_update (pself\<lparr>tx := pgt\<rparr>) params grads kwargs h) =
       outcome (PytreeOptimizer_update (pself\<lparr>tx := pgt'\<rparr>) params grads kwargs h))
   \<and> list_all (\<lambda>(k, t). plain_arrays t)
        (map (\<lambda>(k, t). (k, map_pytree ArrV (nnx_pure h t))) kwargs)
   \<and> (list_ex (\<lambda>(k, t). has_Variable t) kwargs \<longrightarrow>
        \<not> list_all (\<lambda>(k, t). plain_arrays t) (map (\<lambda>(k, t). (k, by_value h t)) kwargs)
        \<and> map (\<lambda>(k, t). (k, map_pytree ArrV (nnx_pure h t))) kwargs \<noteq>
          map (\<lambda>(k, t). (k, by_value h t)) kwargs)
   \<and> Optimizer_update self grads kwargs h =
       Optimizer_update self grads (map (\<lambda>(k, t). (k, map_pytree Arr (nnx_pure h t))) kwargs) h
   \<and> (\<exists>(popt :: int PytreeOptimizer) params grads kwargs h.
         PytreeOptimizer_update popt params grads kwargs h \<noteq>
         PytreeOptimizer_update popt params grads
           (map (\<lambda>(k, t). (k, map_pytree Arr (nnx_pure h t))) kwargs) h)
   \<and> (\<exists>(opt :: int Optimizer) (popt :: int PytreeOptimizer) grads kwargs h e.
         tx popt = tx opt \<and> opt_state popt = opt_state opt
         \<and> outcome (Optimizer_update opt grads kwargs h) \<noteq>
           outcome (PytreeOptimizer_update popt (nnx_state h (model opt) (wrt opt)) grads kwargs h)
         \<and> PytreeOptimizer_update popt (nnx_state h (model opt) (wrt opt)) grads kwargs h = Inl e)"
proof (intro conjI impI)
  show "Optimizer_update (self\<lparr>tx := kwargs_spy F\<rparr>) grads kwargs h =
     Inl (F (map (\<lambda>(k, t). (k, map_pytree ArrV (nnx_pure h t))) kwargs))"
    by (rule Optimizer_update_spy)
next
  show "PytreeOptimizer_update (pself\<lparr>tx := kwargs_spy F\<rparr>) params grads kwargs h =
     Inl (F (map (\<lambda>(k, t). (k, by_value h t)) kwargs))"
    by (rule PytreeOptimizer_update_spy)
next
  assume "update gt (nnx_pure h grads) (nnx_pure h (opt_state self))
         (nnx_pure h (nnx_state h (model self) (wrt self)))
         (map (\<lambda>(k, t). (k, map_pytree ArrV (nnx_pure h t))) kwargs) =
       update gt' (nnx_pure h grads) (nnx_pure h (opt_state self))
         (nnx_pure h (nnx_state h (model self) (wrt self)))
         (map (\<lambda>(k, t). (k, map_pytree ArrV (nnx_pure h t))) kwargs)"
  then show "outcome (Optimizer_update (self\<lparr>tx := gt\<rparr>) grads kwargs h) =
       outcome (Optimizer_update (self\<lparr>tx := gt'\<rparr>) grads kwargs h)"
    by (rule Optimizer_update_only_at)
next
  assume "update pgt (nnx_pure h grads) (nnx_pure h (opt_state pself)) (nnx_pure h params)
         (map (\<lambda>(k, t). (k, by_value h t)) kwargs) =
       update pgt' (nnx_pure h grads) (nnx_pure h (opt_state pself)) (nnx_pure h params)
         (map (\<lambda>(k, t). (k, by_value h t)) kwargs)"
  then show "outcome (PytreeOptimizer_update (pself\<lparr>tx := pgt\<rparr>) params grads kwargs h) =
       outcome (PytreeOptimizer_update (pself\<lparr>tx := pgt'\<rparr>) params grads kwargs h)"
    by (rule PytreeOptimizer_update_only_at)
next
  show "list_all (\<lambda>(k, t). plain_arrays t)
        (map (\<lambda>(k, t). (k, map_pytree ArrV (nnx_pure h t))) kwargs)"
    by (rule converted_plain)
next
  assume "list_ex (\<lambda>(k, t). has_Variable t) kwargs"
  then show "\<not> list_all (\<lambda>(k, t). plain_arrays t) (map (\<lambda>(k, t). (k, by_value h t)) kwargs)"
    by (rule unconverted_not_plain)
next
  assume "list_ex (\<lambda>(k, t). has_Variable t) kwargs"
  then show "map (\<lambda>(k, t). (k, map_pytree ArrV (nnx_pure h t))) kwargs \<noteq>
          map (\<lambda>(k, t). (k, by_value h t)) kwargs"
    by (rule representations_differ)
next
  have "map (\<lambda>(k, t). (k, map_pytree ArrV (nnx_pure h t)))
          (map (\<lambda>(k, t). (k, map_pytree Arr (nnx_pure h t))) kwargs)
        = map (\<lambda>(k, t). (k, map_pytree ArrV (nnx_pure h t))) kwargs"
    by (induction kwargs) (auto simp: nnx_pure_idem)
  then show "Optimizer_update self grads kwargs h =
     Optimizer_update self grads (map (\<lambda>(k, t). (k, map_pytree Arr (nnx_pure h t))) kwargs) h"
    by (simp only: Optimizer_update_def nnx_freeze_def)
next
  let ?popt = "fst (PytreeOptimizer_init (nnx_state example_store example_model Param_filter) kwargs_probe example_store)"
  have "PytreeOptimizer_update ?popt (nnx_state example_store example_model Param_filter) example_grads
          [(''value'', Leaf (Var 1))] example_store \<noteq>
        PytreeOptimizer_update ?popt (nnx_state example_store example_model Param_filter) example_grads
          (map (\<lambda>(k, t). (k, map_pytree Arr (nnx_pure example_store t))) [(''value'', Leaf (Var 1))]) example_store"
    by (simp add: eval_defs kwargs_probe_def example_model_def example_store_def example_grads_def)
  then show "\<exists>(popt :: int PytreeOptimizer) params grads kwargs h.
         PytreeOptimizer_update popt params grads kwargs h \<noteq>
         PytreeOptimizer_update popt params grads
           (map (\<lambda>(k, t). (k, map_pytree Arr (nnx_pure h t))) kwargs) h"
    by blast
next
  let ?opt = "fst (Optimizer_init example_model kwargs_probe Param_filter example_store)"
  let ?popt = "fst (PytreeOptimizer_init (nnx_state example_store example_model Param_filter) kwargs_probe example_store)"
  have "tx ?popt = tx ?opt \<and> opt_state ?popt = opt_state ?opt
      \<and> outcome (Optimizer_update ?opt example_grads [(''value'', Leaf (Var 1))] example_store) \<noteq>
        outcome (PytreeOptimizer_update ?popt (nnx_state example_store (model ?opt) (wrt ?opt)) example_grads
                   [(''value'', Leaf (Var 1))] example_store)
      \<and> PytreeOptimizer_update ?popt (nnx_state example_store (model ?opt) (wrt ?opt)) example_grads
                   [(''value'', Leaf (Var 1))] example_store = Inl (TypeError ''unsupported operand type'')"
    by (simp add: eval_defs kwargs_probe_def example_model_def example_store_def example_grads_def)
  then show "\<exists>(opt :: int Optimizer) (popt :: int PytreeOptimizer) grads kwargs h e.
         tx popt = tx opt \<and> opt_state popt = opt_state opt
         \<and> outcome (Optimizer_update opt grads kwargs h) \<noteq>
           outcome (PytreeOptimizer_update popt (nnx_state h (model opt) (wrt opt)) grads kwargs h)
         \<and> PytreeOptimizer_update popt (nnx_state h (model opt) (wrt opt)) grads kwargs h = Inl e"
    by blast
qed

theorem kwargs_handled_differently_witness:
  "Optimizer_update
     ((fst (Optimizer_init example_model kwargs_probe Param_filter example_store))
        \<lparr>tx := kwargs_spy report_kwargs\<rparr>)
     example_grads example_kwargs example_store = Inl (TypeError ''arrays'')
   \<and> PytreeOptimizer_update
     ((fst (PytreeOptimizer_init (nnx_state example_store example_model Param_filter)
              kwargs_probe example_store))\<lparr>tx := kwargs_spy report_kwargs\<rparr>)
     (nnx_state example_store example_model Param_filter)
     example_grads example_kwargs example_store = Inl (TypeError ''Variables'')
   \<and> update kwargs_probe (nnx_pure example_store example_grads)
       (nnx_pure example_store
          (opt_state (fst (Optimizer_init example_model kwargs_probe Param_filter example_store))))
       (nnx_pure example_store (nnx_state example_store example_model Param_filter))
       [(''value'', Leaf (ArrV 9))] =
     update blind_probe (nnx_pure example_store example_grads)
       (nnx_pure example_store
          (opt_state (fst (Optimizer_init example_model kwargs_probe Param_filter example_store))))
       (nnx_pure example_store (nnx_state example_store example_model Param_filter))
       [(''value'', Leaf (ArrV 9))]
   \<and> outcome (Optimizer_update
        ((fst (Optimizer_init example_model kwargs_probe Param_filter example_store))
           \<lparr>tx := kwargs_probe\<rparr>) example_grads example_kwargs example_store) =
     outcome (Optimizer_update
        ((fst (Optimizer_init example_model kwargs_probe Param_filter example_store))
           \<lparr>tx := blind_probe\<rparr>) example_grads example_kwargs example_store)
   \<and> outcome (PytreeOptimizer_update
        ((fst (PytreeOptimizer_init (nnx_state example_store example_model Param_filter)
                 kwargs_probe example_store))\<lparr>tx := kwargs_probe\<rparr>)
        (nnx_state example_store example_model Param_filter)
        example_grads example_kwargs example_store) =
     outcome (PytreeOptimizer_update
        ((fst (PytreeOptimizer_init (nnx_state example_store example_model Param_filter)
                 kwargs_probe example_store))
           \<lparr>tx := kwargs_spy (\<lambda>kw. TypeError ''unsupported operand type'')\<rparr>)
        (nnx_state example_store example_model Param_filter)
        example_grads example_kwargs example_store)
   \<and> list_ex (\<lambda>(k, t). has_Variable t) example_kwargs
   \<and> map (\<lambda>(k, t). (k, map_pytree ArrV (nnx_pure example_store t))) example_kwargs =
       [(''value'', Leaf (ArrV 9))]
   \<and> map (\<lambda>(k, t). (k, by_value example_store t)) example_kwargs =
       [(''value'', Leaf (VarV \<lparr>var_type = BatchStat, raw_value = 9, metadata = []\<rparr>))]
   \<and> map (\<lambda>(k, t). (k, map_pytree ArrV (nnx_pure example_store t))) example_kwargs \<noteq>
     map (\<lambda>(k, t). (k, by_value example_store t)) example_kwargs"
proof -
  let ?O = "fst (Optimizer_init example_model kwargs_probe Param_filter example_store)"
  let ?P = "fst (PytreeOptimizer_init (nnx_state example_store example_model Param_filter)
                   kwargs_probe example_store)"
  let ?params = "nnx_state example_store example_model Param_filter"
  note T = kwargs_handled_differently
    [where self = ?O and pself = ?P and F = report_kwargs and grads = example_grads
       and kwargs = example_kwargs and h = example_store and params = ?params
       and gt = kwargs_probe and gt' = blind_probe and pgt = kwargs_probe
       and pgt' = "kwargs_spy (\<lambda>kw. TypeError ''unsupported operand type'')"]
  have mo: "model ?O = example_model" "wrt ?O = Param_filter"
    by (simp_all add: Optimizer_init_def split: prod.splits)
  have ko: "map (\<lambda>(k, t). (k, map_pytree ArrV (nnx_pure example_store t))) example_kwargs =
       [(''value'', Leaf (ArrV 9))]"
    by (simp add: example_kwargs_def nnx_pure_def get_value_def example_store_def)
  have kp: "map (\<lambda>(k, t). (k, by_value example_store t)) example_kwargs =
       [(''value'', Leaf (VarV \<lparr>var_type = BatchStat, raw_value = 9, metadata = []\<rparr>))]"
    by (simp add: example_kwargs_def by_value_def example_store_def)
  have hv: "list_ex (\<lambda>(k, t). has_Variable t) example_kwargs"
    by (simp add: example_kwargs_def has_Variable_def)
  have h1: "update kwargs_probe (nnx_pure example_store example_grads)
       (nnx_pure example_store (opt_state ?O)) (nnx_pure example_store ?params)
       [(''value'', Leaf (ArrV 9))] =
     update blind_probe (nnx_pure example_store example_grads)
       (nnx_pure example_store (opt_state ?O)) (nnx_pure example_store ?params)
       [(''value'', Leaf (ArrV 9))]"
    by (simp add: kwargs_probe_def blind_probe_def)
  have h2: "update kwargs_probe (nnx_pure example_store example_grads)
       (nnx_pure example_store (opt_state ?P)) (nnx_pure example_store ?params)
       [(''value'', Leaf (VarV \<lparr>var_type = BatchStat, raw_value = 9, metadata = []\<rparr>))] =
     update (kwargs_spy (\<lambda>kw. TypeError ''unsupported operand type''))
       (nnx_pure example_store example_grads)
       (nnx_pure example_store (opt_state ?P)) (nnx_pure example_store ?params)
       [(''value'', Leaf (VarV \<lparr>var_type = BatchStat, raw_value = 9, metadata = []\<rparr>))]"
    by (simp add: kwargs_probe_def kwargs_spy_def)
  have w1: "Optimizer_update (?O\<lparr>tx := kwargs_spy report_kwargs\<rparr>)
     example_grads example_kwargs example_store = Inl (TypeError ''arrays'')"
    using T [THEN conjunct1] by (simp add: ko report_kwargs_def plain_arrays_def)
  have w2: "PytreeOptimizer_update (?P\<lparr>tx := kwargs_spy report_kwargs\<rparr>) ?params
     example_grads example_kwargs example_store = Inl (TypeError ''Variables'')"
    using T [THEN conjunct2, THEN conjunct1] by (simp add: kp report_kwargs_def plain_arrays_def)
  have w3: "outcome (Optimizer_update (?O\<lparr>tx := kwargs_probe\<rparr>) example_grads example_kwargs
              example_store) =
     outcome (Optimizer_update (?O\<lparr>tx := blind_probe\<rparr>) example_grads example_kwargs
              example_store)"
    using T [THEN conjunct2, THEN conjunct2, THEN conjunct1] h1 by (simp only: ko mo)
  have w4: "outcome (PytreeOptimizer_update (?P\<lparr>tx := kwargs_probe\<rparr>) ?params
              example_grads example_kwargs example_store) =
     outcome (PytreeOptimizer_update
              (?P\<lparr>tx := kwargs_spy (\<lambda>kw. TypeError ''unsupported operand type'')\<rparr>) ?params
              example_grads example_kwargs example_store)"
    using T [THEN conjunct2, THEN conjunct2, THEN conjunct2, THEN conjunct1] h2
    by (simp only: kp)
  have w5: "map (\<lambda>(k, t). (k, map_pytree ArrV (nnx_pure example_store t))) example_kwargs \<noteq>
     map (\<lambda>(k, t). (k, by_value example_store t)) example_kwargs"
    using T [THEN conjunct2, THEN conjunct2, THEN conjunct2, THEN conjunct2, THEN conjunct2,
             THEN conjunct1] hv by blast
  from w1 w2 h1 w3 w4 hv ko kp w5 show ?thesis by (intro conjI)
qed

subsection \<open>Identity across the jit boundary\<close>













lemma leaves_of_with_prefix [simp]: "leaves_of (with_prefix specs start vs) = vs"
  by (simp add: leaves_of_def with_prefix_def comp_def map_nth)

lemma leaves_of_append [simp]: "leaves_of (xs @ ys) = leaves_of xs @ leaves_of ys"
  by (simp add: leaves_of_def)


lemma map_snd_with_path [simp]: "map snd (with_path xs) = xs"
  by (simp add: with_path_def)

lemma length_clear [simp]: "length (clear_non_graph_nodes none vs) = length vs"
  by (simp add: clear_non_graph_nodes_def)






end
